theory Spec2Isabelle
  imports Main "HOL-Library.Word" "HOL-Library.Char_ord" "HOL-Library.List_Lexorder"
    "HOL-Library.FSet"
begin

section \<open>Common types\<close>

text \<open>
  Go's \<open>int64\<close> is a 64-bit word read as two's complement (\<open>sint\<close>); \<open>+\<close> wraps.
  A \<open>byte\<close> is an 8-bit word.
\<close>

type_synonym int64 = "64 word"
type_synonym byte = "8 word"

text \<open>
  Errors are values. \<open>External\<close> is an error handed back by a collaborator (pgx, the
  random source, a helper outside the modelled files); \<open>Wrapped p e\<close> is
  \<open>fmt.Errorf("p: %w", e)\<close>; the other constructors are the errors the modelled
  functions create themselves, with the values their messages are formatted from.
\<close>

datatype error =
    External string
  | Wrapped string error
  | SlotDoesNotExist string
  | RecordCountMismatch nat int
  | UnsupportedRecordType string

text \<open>
  A Go call either returns or panics. \<open>Nil\<close> is the nil interface value, which
  \<open>recover()\<close> also yields when there is no panic at all.
\<close>

datatype go_value = Nil | Val string

datatype 'a outcome = Returned 'a | Panicked go_value

datatype log_level = Info | Warn

type_synonym log_entry = "log_level \<times> string"

section \<open>util.RandomString\<close>

text \<open>
  \<open>crypto/rand.Read(b)\<close> either fails or fills every byte of \<open>b\<close>. The source of
  randomness is a parameter: \<open>ReadFails e\<close>, or \<open>ReadFills f\<close> where \<open>f i\<close> is the
  byte written at index \<open>i\<close>.
\<close>

datatype rand_source = ReadFails error | ReadFills "nat \<Rightarrow> byte"

definition rand_Read :: "rand_source \<Rightarrow> nat \<Rightarrow> error + byte list" where
  "rand_Read src n = (case src of
      ReadFails e \<Rightarrow> Inl e
    | ReadFills f \<Rightarrow> Inr (map f [0..<n]))"

definition alphanum :: string where
  "alphanum = ''0123456789ABCDEFGHIJKLMNOPQRSTUVWXYZabcdefghijklmnopqrstuvwxyz''"

text \<open>The loop body: \<open>bytes[i] = alphanum[b%byte(len(alphanum))]\<close>.\<close>

definition alphanum_at :: "byte \<Rightarrow> char" where
  "alphanum_at b = alphanum ! unat (b mod (word_of_nat (length alphanum)))"

text \<open>
  \<open>make([]byte, n)\<close> panics for a negative \<open>n\<close>; otherwise the buffer has \<open>n\<close> bytes.
\<close>

definition RandomString :: "rand_source \<Rightarrow> int \<Rightarrow> string outcome" where
  "RandomString src n =
     (if n < 0 then Panicked (Val ''makeslice: len out of range'')
      else (case rand_Read src (nat n) of
          Inl err \<Rightarrow> Returned ''temp''
        | Inr bytes \<Rightarrow> Returned (map alphanum_at bytes)))"

text \<open>The character class \<open>[0-9A-Za-z]\<close>.\<close>

definition is_alphanumeric :: "char \<Rightarrow> bool" where
  "is_alphanumeric c \<longleftrightarrow>
     (CHR ''0'' \<le> c \<and> c \<le> CHR ''9'') \<or>
     (CHR ''A'' \<le> c \<and> c \<le> CHR ''Z'') \<or>
     (CHR ''a'' \<le> c \<and> c \<le> CHR ''z'')"

section \<open>PostgresConnector.recordHeartbeatWithRecover\<close>

text \<open>
  \<open>activity.RecordHeartbeat\<close> belongs to the Temporal SDK: it is a parameter that, from
  the heartbeat details and the state of the orchestrator, either returns or panics and
  leaves a new orchestrator state. The deferred function runs in both cases; \<open>recover()\<close>
  stops a panic and yields its value, and the warnings are logged when that value is
  not nil.
\<close>

type_synonym 's heartbeat = "string list \<Rightarrow> 's \<Rightarrow> unit outcome \<times> 's"

definition recordHeartbeatWithRecover ::
    "'s heartbeat \<Rightarrow> string list \<Rightarrow> 's \<times> log_entry list \<Rightarrow> unit outcome \<times> 's \<times> log_entry list" where
  "recordHeartbeatWithRecover RecordHeartbeat details st =
     (case st of (s, logs) \<Rightarrow>
        (case RecordHeartbeat details s of (res, s') \<Rightarrow>
           (let r = (case res of Returned u \<Rightarrow> Nil | Panicked v \<Rightarrow> v) in
            if r \<noteq> Nil
            then (Returned (), s', logs @
                   [(Warn, ''ignoring panic from activity.RecordHeartbeat''),
                    (Warn, ''this can happen when function is invoked outside of a Temporal workflow'')])
            else (Returned (), s', logs))))"

section \<open>Record model\<close>

text \<open>
  \<open>model.Record\<close> is an interface; \<open>SyncRecords\<close> switches on its dynamic type.
  \<open>OtherRecord\<close> stands for every implementation other than the three the switch
  names, with the name that \<open>%T\<close> prints. The items are kept abstract (\<open>'i\<close>);
  \<open>UnchangedToastColumns\<close> is the (finite) key set of the Go map.
\<close>

datatype 'i Record =
    InsertRecord (CheckPointID: int64) (DestinationTableName: string)
      (Items: 'i) (UnchangedToastColumns: "string fset")
  | UpdateRecord (CheckPointID: int64) (DestinationTableName: string)
      (OldItems: 'i) (NewItems: 'i) (UnchangedToastColumns: "string fset")
  | DeleteRecord (CheckPointID: int64) (DestinationTableName: string)
      (Items: 'i) (UnchangedToastColumns: "string fset")
  | OtherRecord (CheckPointID: int64) (TypeName: string)

text \<open>\<open>record.GetCheckPointID()\<close>.\<close>

definition GetCheckPointID :: "'i Record \<Rightarrow> int64" where
  "GetCheckPointID r = CheckPointID r"

record 'i RecordBatch =
  Records :: "'i Record list"
  FirstCheckPointID :: int64
  LastCheckPointID :: int64

record 'i SyncRecordsRequest =
  sync_FlowJobName :: string
  sync_Records :: "'i RecordBatch"

record SyncResponse =
  FirstSyncedCheckPointID :: int64
  LastSyncedCheckPointID :: int64
  NumRecordsSynced :: int
  CurrentSyncBatchID :: int64
  TableNameRowsMapping :: "string \<rightharpoonup> 32 word"

record NormalizeRecordsRequest =
  normalize_FlowJobName :: string

record NormalizeResponse =
  Done :: bool
  StartBatchID :: int64
  EndBatchID :: int64

text \<open>\<open>protos.LastSyncState\<close>.\<close>

record LastSyncState =
  Checkpoint :: int64

section \<open>The destination: raw tables and job metadata\<close>

text \<open>
  One row of the raw table, in the column order \<open>SyncRecords\<close> hands to COPY
  (\<open>_peerdb_uid\<close>, \<open>_peerdb_timestamp\<close>, \<open>_peerdb_destination_table_name\<close>,
  \<open>_peerdb_data\<close>, \<open>_peerdb_record_type\<close>, \<open>_peerdb_match_data\<close>,
  \<open>_peerdb_batch_id\<close>, \<open>_peerdb_unchanged_toast_columns\<close>).
\<close>

record raw_row =
  peerdb_uid :: string
  peerdb_timestamp :: int64
  peerdb_destination_table_name :: string
  peerdb_data :: string
  peerdb_record_type :: int
  peerdb_match_data :: string
  peerdb_batch_id :: int64
  peerdb_unchanged_toast_columns :: string

text \<open>One row of the mirror-jobs table.\<close>

record job_metadata =
  last_offset :: int64
  sync_batch_id :: int64
  normalize_batch_id :: int64

text \<open>
  The committed state of the destination database: the mirror-jobs table keyed by job
  name, the raw tables keyed by identifier, and the normalized tables, whose contents
  are kept abstract (\<open>'n\<close>).
\<close>

record 'n destination =
  mirror_jobs :: "string \<rightharpoonup> job_metadata"
  raw_tables :: "string \<Rightarrow> raw_row list"
  normalized_tables :: 'n

text \<open>
  Modelled from the spec: \<open>getRawTableIdentifier\<close> is not among the source files; the
  spec names the raw table of a job \<open>_peerdb_raw_<job>\<close>.
\<close>

definition getRawTableIdentifier :: "string \<Rightarrow> string" where
  "getRawTableIdentifier jobName = ''_peerdb_raw_'' @ jobName"

text \<open>
  Modelled from the spec: \<open>GetLastSyncBatchID\<close> is not among the source files. The
  spec has it read \<open>sync_batch_id\<close> of the job's row. A job without a row still has
  the id (normalize step 2 compares it), and the spec does not give its value: it is
  taken as 0, the value the spec reads as "never synced". The first argument is the
  failure of the query, if it fails.
\<close>

definition GetLastSyncBatchID :: "error option \<Rightarrow> 'n destination \<Rightarrow> string \<Rightarrow> error + int64" where
  "GetLastSyncBatchID query_err db jobName =
     (case query_err of
        Some e \<Rightarrow> Inl e
      | None \<Rightarrow> (case mirror_jobs db jobName of
                   None \<Rightarrow> Inr 0
                 | Some m \<Rightarrow> Inr (sync_batch_id m)))"

text \<open>
  Modelled from the spec: \<open>getLastNormalizeBatchID\<close> is not among the source files.
  The spec has it read \<open>normalize_batch_id\<close> of the job's row; a job without a row
  reads as 0, as for \<open>GetLastSyncBatchID\<close>.
\<close>

definition getLastNormalizeBatchID :: "error option \<Rightarrow> 'n destination \<Rightarrow> string \<Rightarrow> error + int64" where
  "getLastNormalizeBatchID query_err db jobName =
     (case query_err of
        Some e \<Rightarrow> Inl e
      | None \<Rightarrow> (case mirror_jobs db jobName of
                   None \<Rightarrow> Inr 0
                 | Some m \<Rightarrow> Inr (normalize_batch_id m)))"

text \<open>
  Modelled from the spec: \<open>jobMetadataExists\<close> is not among the source files. The spec
  (normalize step 2) has it tell whether the metadata store has a row for the job.
\<close>

definition jobMetadataExists :: "error option \<Rightarrow> 'n destination \<Rightarrow> string \<Rightarrow> error + bool" where
  "jobMetadataExists query_err db jobName =
     (case query_err of
        Some e \<Rightarrow> Inl e
      | None \<Rightarrow> Inr (mirror_jobs db jobName \<noteq> None))"

text \<open>
  Modelled from the spec: \<open>updateSyncMetadata\<close> is not among the source files. The spec
  (sync step 6): set \<open>last_offset\<close> to the batch's last checkpoint and \<open>sync_batch_id\<close>
  to the new id, inside the transaction it is given. A job without a row gets one, with
  the \<open>normalize_batch_id\<close> it read as before (0).
\<close>

definition updateSyncMetadata ::
    "error option \<Rightarrow> string \<Rightarrow> int64 \<Rightarrow> int64 \<Rightarrow> 'n destination \<Rightarrow> error + 'n destination" where
  "updateSyncMetadata exec_err flowJobName lastCP syncBatchID tx =
     (case exec_err of
        Some e \<Rightarrow> Inl e
      | None \<Rightarrow> Inr (tx\<lparr>mirror_jobs := (mirror_jobs tx)(flowJobName \<mapsto>
          (case mirror_jobs tx flowJobName of
             None \<Rightarrow> \<lparr>last_offset = lastCP, sync_batch_id = syncBatchID, normalize_batch_id = 0\<rparr>
           | Some m \<Rightarrow> m\<lparr>last_offset := lastCP, sync_batch_id := syncBatchID\<rparr>))\<rparr>))"

text \<open>
  Modelled from the spec: \<open>updateNormalizeMetadata\<close> is not among the source files. The
  spec (normalize step 6): set \<open>normalize_batch_id\<close> of the job's row, inside the
  transaction it is given. It is called only for a job that has a row; an UPDATE of a
  missing row changes nothing.
\<close>

definition updateNormalizeMetadata ::
    "error option \<Rightarrow> string \<Rightarrow> int64 \<Rightarrow> 'n destination \<Rightarrow> error + 'n destination" where
  "updateNormalizeMetadata exec_err flowJobName normalizeBatchID tx =
     (case exec_err of
        Some e \<Rightarrow> Inl e
      | None \<Rightarrow> Inr (case mirror_jobs tx flowJobName of
          None \<Rightarrow> tx
        | Some m \<Rightarrow> tx\<lparr>mirror_jobs := (mirror_jobs tx)(flowJobName \<mapsto>
                      m\<lparr>normalize_batch_id := normalizeBatchID\<rparr>)\<rparr>))"

section \<open>PostgresConnector.GetLastOffset\<close>

text \<open>
  The query selects the stored offset of the job's row (the SQL text,
  \<open>getLastOffsetSQL\<close>, is not among the source files). \<open>query_err\<close> is the error
  \<open>Query\<close> returns, if it returns one. pgx may also return no error from \<open>Query\<close> and
  report a failed execution later: \<open>rows.Next()\<close> is then false and the error is to be
  had from \<open>rows.Err()\<close>; \<open>next_err\<close> is that error, if there is one. \<open>scan_err\<close> is
  the failure of \<open>Scan\<close>, if it fails. \<open>GetLastOffset\<close> tests \<open>rows.Next()\<close> and never
  reads \<open>rows.Err()\<close>. The result is Go's pair \<open>(*LastSyncState, error)\<close>: \<open>Inr None\<close>
  is \<open>nil, nil\<close>.
\<close>

text \<open>
  \<open>rows.Next()\<close>: the row it makes available for \<open>Scan\<close>, or \<open>None\<close> when it is
  false, because the result has no row or because reading it failed.
\<close>

definition rows_Next :: "error option \<Rightarrow> 'a option \<Rightarrow> 'a option" where
  "rows_Next next_err row = (case next_err of Some err \<Rightarrow> None | None \<Rightarrow> row)"

definition GetLastOffset ::
    "error option \<Rightarrow> error option \<Rightarrow> error option \<Rightarrow> 'n destination \<Rightarrow> string
       \<Rightarrow> error + LastSyncState option" where
  "GetLastOffset query_err next_err scan_err db jobName =
     (case query_err of
        Some err \<Rightarrow> Inl (Wrapped (''error getting last offset for job '' @ jobName) err)
      | None \<Rightarrow>
         (case rows_Next next_err (mirror_jobs db jobName) of
            None \<Rightarrow> Inr None
          | Some m \<Rightarrow>
             (case scan_err of
                Some err \<Rightarrow> Inl (Wrapped ''error while reading result row'' err)
              | None \<Rightarrow>
                 (let result = last_offset m in
                  if result = 0 then Inr None
                  else Inr (Some \<lparr>Checkpoint = result\<rparr>)))))"

section \<open>PostgresConnector.SyncRecords\<close>

text \<open>Go's \<open>strings.Join\<close>.\<close>

fun Join :: "string list \<Rightarrow> string \<Rightarrow> string" where
  "Join [] sep = []"
| "Join [x] sep = x"
| "Join (x # y # ys) sep = x @ sep @ Join (y # ys) sep"

text \<open>
  Modelled from the spec: \<open>utils.KeysToString\<close> is not among the source files. The spec
  has \<open>_unchanged_toast_columns\<close> hold the column names, comma-separated and sorted
  lexicographically.
\<close>

definition KeysToString :: "string fset \<Rightarrow> string" where
  "KeysToString cols = Join (sorted_list_of_fset cols) '',''"

text \<open>
  What \<open>SyncRecords\<close> takes from outside: \<open>Items.ToJSON\<close> (not among the source
  files), \<open>uuid.New().String()\<close> and \<open>time.Now().UnixNano()\<close> at the \<open>k\<close>-th record of
  the batch, and the answers of the database: whether the query of the batch id,
  \<open>Begin\<close>, the metadata update and \<open>Commit\<close> fail, and what \<open>CopyFrom\<close> reports (an
  error, or the number of rows copied).
\<close>

record 'i sync_env =
  ToJSON :: "'i \<Rightarrow> error + string"
  uuid_New :: "nat \<Rightarrow> string"
  time_Now :: "nat \<Rightarrow> int64"
  sync_GetLastSyncBatchID_err :: "error option"
  sync_Begin_err :: "error option"
  CopyFrom_result :: "error + int"
  updateSyncMetadata_err :: "error option"
  sync_Commit_err :: "error option"

text \<open>The variables the loop over the records changes.\<close>

record sync_loop_state =
  records :: "raw_row list"
  tableNameRowsMapping :: "string \<rightharpoonup> 32 word"
  first :: bool
  firstCP :: int64

text \<open>\<open>tableNameRowsMapping[name] += 1\<close> on a \<open>map[string]uint32\<close>: a missing key reads 0.\<close>

definition increment_rows :: "(string \<rightharpoonup> 32 word) \<Rightarrow> string \<Rightarrow> (string \<rightharpoonup> 32 word)" where
  "increment_rows m name = m(name \<mapsto> (case m name of None \<Rightarrow> 0 | Some c \<Rightarrow> c) + 1)"

text \<open>
  The type switch of the loop body: the raw row a record expands to, or the error the
  function returns with. The row is the \<open>length (records st)\<close>-th of the batch.
\<close>

definition expand_record :: "'i sync_env \<Rightarrow> int64 \<Rightarrow> nat \<Rightarrow> 'i Record \<Rightarrow> error + raw_row" where
  "expand_record env syncBatchID k r =
     (case r of
        InsertRecord cp dst items cols \<Rightarrow>
          (case ToJSON env items of
             Inl err \<Rightarrow> Inl (Wrapped ''failed to serialize insert record items to JSON'' err)
           | Inr itemsJSON \<Rightarrow> Inr
               \<lparr>peerdb_uid = uuid_New env k, peerdb_timestamp = time_Now env k,
                peerdb_destination_table_name = dst, peerdb_data = itemsJSON,
                peerdb_record_type = 0, peerdb_match_data = ''{}'',
                peerdb_batch_id = syncBatchID,
                peerdb_unchanged_toast_columns = KeysToString cols\<rparr>)
      | UpdateRecord cp dst oldItems newItems cols \<Rightarrow>
          (case ToJSON env newItems of
             Inl err \<Rightarrow> Inl (Wrapped ''failed to serialize update record new items to JSON'' err)
           | Inr newItemsJSON \<Rightarrow>
              (case ToJSON env oldItems of
                 Inl err \<Rightarrow> Inl (Wrapped ''failed to serialize update record old items to JSON'' err)
               | Inr oldItemsJSON \<Rightarrow> Inr
                   \<lparr>peerdb_uid = uuid_New env k, peerdb_timestamp = time_Now env k,
                    peerdb_destination_table_name = dst, peerdb_data = newItemsJSON,
                    peerdb_record_type = 1, peerdb_match_data = oldItemsJSON,
                    peerdb_batch_id = syncBatchID,
                    peerdb_unchanged_toast_columns = KeysToString cols\<rparr>))
      | DeleteRecord cp dst items cols \<Rightarrow>
          (case ToJSON env items of
             Inl err \<Rightarrow> Inl (Wrapped ''failed to serialize delete record items to JSON'' err)
           | Inr itemsJSON \<Rightarrow> Inr
               \<lparr>peerdb_uid = uuid_New env k, peerdb_timestamp = time_Now env k,
                peerdb_destination_table_name = dst, peerdb_data = itemsJSON,
                peerdb_record_type = 2, peerdb_match_data = itemsJSON,
                peerdb_batch_id = syncBatchID,
                peerdb_unchanged_toast_columns = KeysToString cols\<rparr>)
      | OtherRecord cp tname \<Rightarrow> Inl (UnsupportedRecordType tname))"

text \<open>
  The loop \<open>for _, record := range req.Records.Records\<close>: each record appends its row,
  counts it for its destination table, and the first one sets \<open>firstCP\<close>.
\<close>

fun sync_loop :: "'i sync_env \<Rightarrow> int64 \<Rightarrow> 'i Record list \<Rightarrow> sync_loop_state \<Rightarrow> error + sync_loop_state" where
  "sync_loop env syncBatchID [] st = Inr st"
| "sync_loop env syncBatchID (r # rs) st =
     (case expand_record env syncBatchID (length (records st)) r of
        Inl err \<Rightarrow> Inl err
      | Inr row \<Rightarrow>
          sync_loop env syncBatchID rs
            (st\<lparr>records := records st @ [row],
                tableNameRowsMapping :=
                  increment_rows (tableNameRowsMapping st) (peerdb_destination_table_name row),
                first := False,
                firstCP := (if first st then GetCheckPointID r else firstCP st)\<rparr>))"

text \<open>
  \<open>CopyFrom\<close> inside the transaction: when it reports \<open>n\<close> rows copied, the working copy
  of the raw table has the first \<open>n\<close> of the rows appended.
\<close>

definition CopyFrom ::
    "error + int \<Rightarrow> string \<Rightarrow> raw_row list \<Rightarrow> 'n destination \<Rightarrow> error + (int \<times> 'n destination)" where
  "CopyFrom result table rows tx =
     (case result of
        Inl err \<Rightarrow> Inl err
      | Inr n \<Rightarrow> Inr (n, tx\<lparr>raw_tables := (raw_tables tx)(table := raw_tables tx table @ take (nat n) rows)\<rparr>))"

text \<open>
  The part of \<open>SyncRecords\<close> that runs inside the transaction, from \<open>CopyFrom\<close> to
  \<open>Commit\<close>, on the working copy \<open>tx\<close>: an error, or the response and the state to
  commit.
\<close>

definition SyncRecords_tx ::
    "'i sync_env \<Rightarrow> 'i SyncRecordsRequest \<Rightarrow> int64 \<Rightarrow> sync_loop_state \<Rightarrow> 'n destination
       \<Rightarrow> error + (SyncResponse \<times> 'n destination)" where
  "SyncRecords_tx env req syncBatchID st tx =
     (let rawTableIdentifier = getRawTableIdentifier (sync_FlowJobName req);
          lastCP = LastCheckPointID (sync_Records req) in
      case CopyFrom (CopyFrom_result env) rawTableIdentifier (records st) tx of
        Inl err \<Rightarrow> Inl (Wrapped ''error syncing records'' err)
      | Inr (syncedRecordsCount, tx1) \<Rightarrow>
          if syncedRecordsCount \<noteq> int (length (records st))
          then Inl (RecordCountMismatch (length (records st)) syncedRecordsCount)
          else
            (case updateSyncMetadata (updateSyncMetadata_err env) (sync_FlowJobName req)
                    lastCP syncBatchID tx1 of
               Inl err \<Rightarrow> Inl err
             | Inr tx2 \<Rightarrow>
                (case sync_Commit_err env of
                   Some err \<Rightarrow> Inl err
                 | None \<Rightarrow> Inr
                     (\<lparr>FirstSyncedCheckPointID = firstCP st,
                       LastSyncedCheckPointID = lastCP,
                       NumRecordsSynced = int (length (records st)),
                       CurrentSyncBatchID = syncBatchID,
                       TableNameRowsMapping = tableNameRowsMapping st\<rparr>, tx2))))"

text \<open>
  \<open>SyncRecords\<close>: the result and the committed state of the destination afterwards.
  \<open>Begin\<close> opens a working copy of the committed state; \<open>Commit\<close> installs it; on every
  error return after \<open>Begin\<close> the deferred \<open>Rollback\<close> drops it, so the committed state
  is the one before the call. The response for an empty batch leaves
  \<open>CurrentSyncBatchID\<close> and \<open>TableNameRowsMapping\<close> at their zero values.
\<close>

definition SyncRecords ::
    "'i sync_env \<Rightarrow> 'i SyncRecordsRequest \<Rightarrow> 'n destination
       \<Rightarrow> (error + SyncResponse) \<times> 'n destination" where
  "SyncRecords env req db =
     (case GetLastSyncBatchID (sync_GetLastSyncBatchID_err env) db (sync_FlowJobName req) of
        Inl err \<Rightarrow> (Inl (Wrapped ''failed to get previous syncBatchID'' err), db)
      | Inr lastSyncBatchID \<Rightarrow>
         (let syncBatchID = lastSyncBatchID + 1 in
          case sync_loop env syncBatchID (Records (sync_Records req))
                 \<lparr>records = [], tableNameRowsMapping = Map.empty, first = True, firstCP = 0\<rparr> of
            Inl err \<Rightarrow> (Inl err, db)
          | Inr st \<Rightarrow>
             if length (records st) = 0
             then (Inr \<lparr>FirstSyncedCheckPointID = 0, LastSyncedCheckPointID = 0,
                        NumRecordsSynced = 0, CurrentSyncBatchID = 0,
                        TableNameRowsMapping = Map.empty\<rparr>, db)
             else
               (case sync_Begin_err env of
                  Some err \<Rightarrow> (Inl (Wrapped ''error starting transaction for syncing records'' err), db)
                | None \<Rightarrow>
                   (case SyncRecords_tx env req syncBatchID st db of
                      Inl err \<Rightarrow> (Inl err, db)
                    | Inr (res, tx) \<Rightarrow> (Inr res, tx)))))"

section \<open>PostgresConnector.NormalizeRecords\<close>

text \<open>
  What \<open>NormalizeRecords\<close> takes from outside. The helpers
  \<open>getTableNametoUnchangedCols\<close> (a read of the destination; its result is listed in
  the order the Go map is ranged over), \<open>majorVersionCheck(150000)\<close> and
  \<open>generateNormalizeStatements\<close> are not among the source files and are parameters.
  \<open>SendBatch\<close> runs the queued statements, each with its arguments
  \<open>(normalizeBatchID, syncBatchID, destinationTableName)\<close>, on the normalized tables
  of the working copy: the error of \<open>Close\<close>, or the new tables and the rows affected
  by each statement. The other fields say whether a query, \<open>Begin\<close>,
  \<open>getApproxTableCounts\<close>, the metadata update or \<open>Commit\<close> fail.
\<close>

record 'n normalize_env =
  norm_GetLastSyncBatchID_err :: "error option"
  getLastNormalizeBatchID_err :: "error option"
  jobMetadataExists_err :: "error option"
  getTableNametoUnchangedCols ::
    "'n destination \<Rightarrow> string \<Rightarrow> int64 \<Rightarrow> int64 \<Rightarrow> error + (string \<times> string list) list"
  norm_Begin_err :: "error option"
  majorVersionCheck :: "error + bool"
  generateNormalizeStatements :: "string \<Rightarrow> string list \<Rightarrow> string \<Rightarrow> bool \<Rightarrow> string list"
  SendBatch :: "(string \<times> int64 \<times> int64 \<times> string) list \<Rightarrow> 'n \<Rightarrow> error + ('n \<times> int list)"
  norm_getApproxTableCounts_err :: "error option"
  updateNormalizeMetadata_err :: "error option"
  norm_Commit_err :: "error option"

text \<open>The two nested loops that queue the statements of every destination table.\<close>

definition queue_statements ::
    "'n normalize_env \<Rightarrow> string \<Rightarrow> bool \<Rightarrow> int64 \<Rightarrow> int64 \<Rightarrow> (string \<times> string list) list
       \<Rightarrow> (string \<times> int64 \<times> int64 \<times> string) list" where
  "queue_statements env rawTableIdentifier supportsMerge normalizeBatchID syncBatchID unchangedToastColsMap =
     concat (map (\<lambda>(destinationTableName, unchangedToastCols).
        map (\<lambda>normalizeStatement. (normalizeStatement, normalizeBatchID, syncBatchID, destinationTableName))
          (generateNormalizeStatements env destinationTableName unchangedToastCols
             rawTableIdentifier supportsMerge))
        unchangedToastColsMap)"

text \<open>
  The part of \<open>NormalizeRecords\<close> that runs inside the transaction, on the working copy
  \<open>tx\<close>: an error, or the response and the state to commit.
\<close>

definition NormalizeRecords_tx ::
    "'n normalize_env \<Rightarrow> NormalizeRecordsRequest \<Rightarrow> int64 \<Rightarrow> int64 \<Rightarrow> (string \<times> string list) list
       \<Rightarrow> 'n destination \<Rightarrow> error + (NormalizeResponse \<times> 'n destination)" where
  "NormalizeRecords_tx env req syncBatchID normalizeBatchID unchangedToastColsMap tx =
     (case majorVersionCheck env of
        Inl err \<Rightarrow> Inl err
      | Inr supportsMerge \<Rightarrow>
         (let mergeStatementsBatch = queue_statements env
                (getRawTableIdentifier (normalize_FlowJobName req)) supportsMerge
                normalizeBatchID syncBatchID unchangedToastColsMap in
          case (if length mergeStatementsBatch > 0
                then (case SendBatch env mergeStatementsBatch (normalized_tables tx) of
                        Inl err \<Rightarrow> Inl (Wrapped ''error executing merge statements'' err)
                      | Inr (tables, affected) \<Rightarrow>
                          Inr (tx\<lparr>normalized_tables := tables\<rparr>, sum_list affected))
                else Inr (tx, 0)) of
            Inl err \<Rightarrow> Inl err
          | Inr (tx1, totalRowsAffected) \<Rightarrow>
             (case (if totalRowsAffected > 0 then norm_getApproxTableCounts_err env else None) of
                Some err \<Rightarrow> Inl err
              | None \<Rightarrow>
                 (case updateNormalizeMetadata (updateNormalizeMetadata_err env)
                         (normalize_FlowJobName req) syncBatchID tx1 of
                    Inl err \<Rightarrow> Inl err
                  | Inr tx2 \<Rightarrow>
                     (case norm_Commit_err env of
                        Some err \<Rightarrow> Inl err
                      | None \<Rightarrow> Inr
                          (\<lparr>Done = True, StartBatchID = normalizeBatchID + 1,
                            EndBatchID = syncBatchID\<rparr>, tx2))))))"

text \<open>
  \<open>NormalizeRecords\<close>: the result and the committed state of the destination
  afterwards, with the transaction as in \<open>SyncRecords\<close>.
\<close>

definition NormalizeRecords ::
    "'n normalize_env \<Rightarrow> NormalizeRecordsRequest \<Rightarrow> 'n destination
       \<Rightarrow> (error + NormalizeResponse) \<times> 'n destination" where
  "NormalizeRecords env req db =
     (case GetLastSyncBatchID (norm_GetLastSyncBatchID_err env) db (normalize_FlowJobName req) of
        Inl err \<Rightarrow> (Inl err, db)
      | Inr syncBatchID \<Rightarrow>
     (case getLastNormalizeBatchID (getLastNormalizeBatchID_err env) db (normalize_FlowJobName req) of
        Inl err \<Rightarrow> (Inl err, db)
      | Inr normalizeBatchID \<Rightarrow>
     (case jobMetadataExists (jobMetadataExists_err env) db (normalize_FlowJobName req) of
        Inl err \<Rightarrow> (Inl err, db)
      | Inr metadataExists \<Rightarrow>
         if syncBatchID = normalizeBatchID \<or> \<not> metadataExists
         then (Inr \<lparr>Done = True, StartBatchID = normalizeBatchID, EndBatchID = syncBatchID\<rparr>, db)
         else
           (case getTableNametoUnchangedCols env db (normalize_FlowJobName req)
                   syncBatchID normalizeBatchID of
              Inl err \<Rightarrow> (Inl err, db)
            | Inr unchangedToastColsMap \<Rightarrow>
               (case norm_Begin_err env of
                  Some err \<Rightarrow>
                    (Inl (Wrapped ''error starting transaction for normalizing records'' err), db)
                | None \<Rightarrow>
                   (case NormalizeRecords_tx env req syncBatchID normalizeBatchID
                           unchangedToastColsMap db of
                      Inl err \<Rightarrow> (Inl err, db)
                    | Inr (res, tx) \<Rightarrow> (Inr res, tx)))))))"

section \<open>PostgresConnector.PullRecords\<close>

record PullRecordsRequest =
  FlowJobName :: string
  OverrideReplicationSlotName :: string
  OverridePublicationName :: string
  SrcTableIDNameMapping :: "32 word \<rightharpoonup> string"
  TableNameMapping :: "(string \<times> string) list"

record SlotCheckResult =
  SlotExists :: bool
  PublicationExists :: bool

record PostgresCDCConfig =
  cdc_SrcTableIDNameMapping :: "32 word \<rightharpoonup> string"
  Slot :: string
  Publication :: string
  cdc_TableNameMapping :: "(string \<times> string) list"

text \<open>
  Everything a pull can read or change: the destination with its job metadata, and the
  rest (the source database with its slots and publications, the catalog), kept
  abstract.
\<close>

record ('n, 'x) world =
  dest :: "'n destination"
  outside :: 'x

text \<open>
  The collaborators of \<open>PullRecords\<close>, none of them among the source files:
  \<open>checkSlotAndPublication\<close> reads the world; \<open>NewPostgresCDCSource\<close> may fail;
  \<open>cdc.PullRecords\<close> and the monitor's \<open>UpdateLatestLSNAtSourceForCDCFlow\<close> may change
  the world; \<open>getApproxTableCounts\<close> and \<open>getCurrentLSN\<close> read it;
  \<open>CDCMirrorMonitor_present\<close> says whether the context carries a monitor.
\<close>

record ('i, 'w) pull_env =
  checkSlotAndPublication :: "string \<Rightarrow> string \<Rightarrow> 'w \<Rightarrow> error + SlotCheckResult"
  NewPostgresCDCSource_err :: "PostgresCDCConfig \<Rightarrow> error option"
  cdc_PullRecords :: "PostgresCDCConfig \<Rightarrow> PullRecordsRequest \<Rightarrow> 'w \<Rightarrow> (error + 'i RecordBatch) \<times> 'w"
  getApproxTableCounts_err :: "string list \<Rightarrow> 'w \<Rightarrow> error option"
  CDCMirrorMonitor_present :: bool
  getCurrentLSN :: "'w \<Rightarrow> error + int64"
  UpdateLatestLSNAtSourceForCDCFlow :: "string \<Rightarrow> int64 \<Rightarrow> 'w \<Rightarrow> error option \<times> 'w"

text \<open>
  \<open>PullRecords\<close> after its checks of slot and publication: the CDC source is created
  for \<open>slotName\<close> and \<open>publicationName\<close> and pulled from.
\<close>

definition PullRecords_checked ::
    "('i, 'w) pull_env \<Rightarrow> PullRecordsRequest \<Rightarrow> string \<Rightarrow> string \<Rightarrow> 'w \<times> log_entry list
       \<Rightarrow> (error + 'i RecordBatch) \<times> 'w \<times> log_entry list" where
  "PullRecords_checked env req slotName publicationName st =
     (case st of (w, logs) \<Rightarrow>
      (let cfg = \<lparr>cdc_SrcTableIDNameMapping = SrcTableIDNameMapping req, Slot = slotName,
                  Publication = publicationName, cdc_TableNameMapping = TableNameMapping req\<rparr> in
       case NewPostgresCDCSource_err env cfg of
         Some err \<Rightarrow> (Inl (Wrapped ''failed to create cdc source'' err), w, logs)
       | None \<Rightarrow>
          (case cdc_PullRecords env cfg req w of
             (Inl err, w1) \<Rightarrow> (Inl err, w1, logs)
           | (Inr recordBatch, w1) \<Rightarrow>
              if length (Records recordBatch) > 0
              then
                (case getApproxTableCounts_err env (map fst (TableNameMapping req)) w1 of
                   Some err \<Rightarrow> (Inl err, w1, logs)
                 | None \<Rightarrow>
                    if CDCMirrorMonitor_present env
                    then
                      (case getCurrentLSN env w1 of
                         Inl err \<Rightarrow> (Inl err, w1, logs)
                       | Inr latestLSN \<Rightarrow>
                          (case UpdateLatestLSNAtSourceForCDCFlow env (FlowJobName req) latestLSN w1 of
                             (Some err, w2) \<Rightarrow> (Inl err, w2, logs)
                           | (None, w2) \<Rightarrow> (Inr recordBatch, w2, logs)))
                    else (Inr recordBatch, w1, logs))
              else (Inr recordBatch, w1, logs))))"

text \<open>
  The names \<open>PullRecords\<close> checks: the job name prefixed with \<open>peerflow_slot_\<close> and
  \<open>peerflow_pub_\<close>, unless the request overrides them.
\<close>

definition pull_slotName :: "PullRecordsRequest \<Rightarrow> string" where
  "pull_slotName req =
     (if OverrideReplicationSlotName req \<noteq> ''''
      then OverrideReplicationSlotName req
      else ''peerflow_slot_'' @ FlowJobName req)"

definition pull_publicationName :: "PullRecordsRequest \<Rightarrow> string" where
  "pull_publicationName req =
     (if OverridePublicationName req \<noteq> ''''
      then OverridePublicationName req
      else ''peerflow_pub_'' @ FlowJobName req)"

text \<open>
  \<open>PullRecords\<close>: the result, the world and the log afterwards. A missing publication
  is logged and replaced by the empty name; a missing slot is logged and returned as an
  error.
\<close>

definition PullRecords ::
    "('i, 'w) pull_env \<Rightarrow> PullRecordsRequest \<Rightarrow> 'w \<times> log_entry list
       \<Rightarrow> (error + 'i RecordBatch) \<times> 'w \<times> log_entry list" where
  "PullRecords env req st =
     (case st of (w, logs) \<Rightarrow>
      (let slotName = pull_slotName req;
           publicationName = pull_publicationName req in
       case checkSlotAndPublication env slotName publicationName w of
         Inl err \<Rightarrow>
           (Inl (Wrapped ''error checking for replication slot and publication'' err), w, logs)
       | Inr exists \<Rightarrow>
          (let logs1 = (if \<not> PublicationExists exists
                        then logs @ [(Warn, ''publication '' @ publicationName @ '' does not exist'')]
                        else logs);
               publicationName1 = (if \<not> PublicationExists exists then '''' else publicationName) in
           if \<not> SlotExists exists
           then (Inl (SlotDoesNotExist slotName), w,
                 logs1 @ [(Warn, ''slot '' @ slotName @ '' does not exist'')])
           else PullRecords_checked env req slotName publicationName1
                  (w, logs1 @ [(Info, ''PullRecords: performed checks for slot and publication'')]))))"

section \<open>Runs of SyncRecords and NormalizeRecords\<close>

text \<open>
  The two operations that write the batch ids, each with the answers it gets from
  outside, and the destination a sequence of them leaves, whether they succeed or fail.
\<close>

datatype ('i, 'n) operation =
    Sync "'i sync_env" "'i SyncRecordsRequest"
  | Normalize "'n normalize_env" NormalizeRecordsRequest

fun apply_operation :: "('i, 'n) operation \<Rightarrow> 'n destination \<Rightarrow> 'n destination" where
  "apply_operation (Sync env req) db = snd (SyncRecords env req db)"
| "apply_operation (Normalize env req) db = snd (NormalizeRecords env req db)"

fun run :: "('i, 'n) operation list \<Rightarrow> 'n destination \<Rightarrow> 'n destination" where
  "run [] db = db"
| "run (x # xs) db = run xs (apply_operation x db)"

section \<open>The properties, as predicates\<close>

text \<open>
  The ordering of the two batch ids of a job, as signed 64-bit integers. A job without
  a row has no ids to compare.
\<close>

definition batch_ids_ordered :: "'n destination \<Rightarrow> string \<Rightarrow> bool" where
  "batch_ids_ordered db jobName =
     (case mirror_jobs db jobName of
        None \<Rightarrow> True
      | Some m \<Rightarrow> sint (normalize_batch_id m) \<le> sint (sync_batch_id m))"

text \<open>
  The stored ids of every job are ordered, and no \<open>sync_batch_id\<close> is above \<open>n\<close>:
  what holds after \<open>n\<close> operations on a destination that started without metadata.
\<close>

definition ids_bounded :: "nat \<Rightarrow> 'n destination \<Rightarrow> bool" where
  "ids_bounded n db =
     (\<forall>j m. mirror_jobs db j = Some m \<longrightarrow>
        sint (normalize_batch_id m) \<le> sint (sync_batch_id m) \<and>
        sint (sync_batch_id m) \<le> int n)"

text \<open>
  The raw row a record is to expand to: its record type, its data and match data as
  the JSON of the items, and the unchanged TOAST columns as the sorted list of their
  names, joined by commas. A record of another type has no raw row.
\<close>

definition expands_to :: "('i \<Rightarrow> error + string) \<Rightarrow> 'i Record \<Rightarrow> raw_row \<Rightarrow> bool" where
  "expands_to toJSON r row =
     (case r of
        InsertRecord cp dst items cols \<Rightarrow>
          peerdb_record_type row = 0 \<and> toJSON items = Inr (peerdb_data row) \<and>
          peerdb_match_data row = ''{}'' \<and>
          peerdb_unchanged_toast_columns row = Join (sorted_list_of_fset cols) '',''
      | UpdateRecord cp dst oldItems newItems cols \<Rightarrow>
          peerdb_record_type row = 1 \<and> toJSON newItems = Inr (peerdb_data row) \<and>
          toJSON oldItems = Inr (peerdb_match_data row) \<and>
          peerdb_unchanged_toast_columns row = Join (sorted_list_of_fset cols) '',''
      | DeleteRecord cp dst items cols \<Rightarrow>
          peerdb_record_type row = 2 \<and> toJSON items = Inr (peerdb_data row) \<and>
          peerdb_match_data row = peerdb_data row \<and>
          peerdb_unchanged_toast_columns row = Join (sorted_list_of_fset cols) '',''
      | OtherRecord cp tname \<Rightarrow> False)"

section \<open>Example states\<close>

text \<open>
  A destination with one job, synced up to batch 3 and normalized up to batch 1, and a
  batch of three records for it. The items are strings and \<open>ToJSON\<close> prefixes them.
\<close>

definition example_db :: "unit destination" where
  "example_db =
     \<lparr>mirror_jobs = [''job'' \<mapsto> \<lparr>last_offset = 5, sync_batch_id = 3, normalize_batch_id = 1\<rparr>],
      raw_tables = (\<lambda>table. []),
      normalized_tables = ()\<rparr>"

definition example_records :: "string Record list" where
  "example_records =
     [InsertRecord 10 ''public.t'' ''id=1,v=a'' {||},
      UpdateRecord 11 ''public.t'' ''id=1,v=a'' ''id=1'' {|''v'', ''big''|},
      DeleteRecord 12 ''public.t'' ''id=1'' {||}]"

definition example_sync_request :: "string SyncRecordsRequest" where
  "example_sync_request =
     \<lparr>sync_FlowJobName = ''job'',
      sync_Records = \<lparr>Records = example_records, FirstCheckPointID = 10, LastCheckPointID = 12\<rparr>\<rparr>"

definition example_empty_request :: "string SyncRecordsRequest" where
  "example_empty_request =
     \<lparr>sync_FlowJobName = ''job'',
      sync_Records = \<lparr>Records = [], FirstCheckPointID = 0, LastCheckPointID = 0\<rparr>\<rparr>"

text \<open>A database that answers every call and copies all three rows.\<close>

definition example_sync_env :: "string sync_env" where
  "example_sync_env =
     \<lparr>ToJSON = (\<lambda>items. Inr (''json:'' @ items)),
      uuid_New = (\<lambda>k. ''uuid''),
      time_Now = (\<lambda>k. 1000 + word_of_nat k),
      sync_GetLastSyncBatchID_err = None,
      sync_Begin_err = None,
      CopyFrom_result = Inr 3,
      updateSyncMetadata_err = None,
      sync_Commit_err = None\<rparr>"

text \<open>The three raw rows of the example batch, with batch id 4.\<close>

definition example_rows :: "raw_row list" where
  "example_rows =
     [\<lparr>peerdb_uid = ''uuid'', peerdb_timestamp = 1000, peerdb_destination_table_name = ''public.t'',
       peerdb_data = ''json:id=1,v=a'', peerdb_record_type = 0, peerdb_match_data = ''{}'',
       peerdb_batch_id = 4, peerdb_unchanged_toast_columns = []\<rparr>,
      \<lparr>peerdb_uid = ''uuid'', peerdb_timestamp = 1001, peerdb_destination_table_name = ''public.t'',
       peerdb_data = ''json:id=1'', peerdb_record_type = 1, peerdb_match_data = ''json:id=1,v=a'',
       peerdb_batch_id = 4, peerdb_unchanged_toast_columns = ''big,v''\<rparr>,
      \<lparr>peerdb_uid = ''uuid'', peerdb_timestamp = 1002, peerdb_destination_table_name = ''public.t'',
       peerdb_data = ''json:id=1'', peerdb_record_type = 2, peerdb_match_data = ''json:id=1'',
       peerdb_batch_id = 4, peerdb_unchanged_toast_columns = []\<rparr>]"

text \<open>The example destination after the example batch is synced.\<close>

definition example_db_synced :: "unit destination" where
  "example_db_synced =
     \<lparr>mirror_jobs = [''job'' \<mapsto> \<lparr>last_offset = 12, sync_batch_id = 4, normalize_batch_id = 1\<rparr>],
      raw_tables = (\<lambda>table. [])(''_peerdb_raw_job'' := example_rows),
      normalized_tables = ()\<rparr>"

text \<open>
  A normalize run in which every call succeeds: one destination table, one statement,
  two rows affected.
\<close>

definition example_normalize_env :: "unit normalize_env" where
  "example_normalize_env =
     \<lparr>norm_GetLastSyncBatchID_err = None,
      getLastNormalizeBatchID_err = None,
      jobMetadataExists_err = None,
      getTableNametoUnchangedCols = (\<lambda>db jobName syncBatchID normalizeBatchID. Inr [(''public.t'', [''big''])]),
      norm_Begin_err = None,
      majorVersionCheck = Inr True,
      generateNormalizeStatements = (\<lambda>dst cols raw supportsMerge. [''MERGE'']),
      SendBatch = (\<lambda>batch tables. Inr (tables, [2])),
      norm_getApproxTableCounts_err = None,
      updateNormalizeMetadata_err = None,
      norm_Commit_err = None\<rparr>"

definition example_normalize_request :: NormalizeRecordsRequest where
  "example_normalize_request = \<lparr>normalize_FlowJobName = ''job''\<rparr>"

text \<open>The example destination after that normalize run.\<close>

definition example_db_normalized :: "unit destination" where
  "example_db_normalized =
     \<lparr>mirror_jobs = [''job'' \<mapsto> \<lparr>last_offset = 5, sync_batch_id = 3, normalize_batch_id = 3\<rparr>],
      raw_tables = (\<lambda>table. []),
      normalized_tables = ()\<rparr>"

text \<open>
  A pull for the job: the world is the example destination, and the check of slot and
  publication answers what it is told to. The CDC source can be created for the job's
  slot only, and a pull succeeds only without a publication filter: it then returns one
  insert.
\<close>

definition example_pull_request :: PullRecordsRequest where
  "example_pull_request =
     \<lparr>FlowJobName = ''job'', OverrideReplicationSlotName = '''', OverridePublicationName = '''',
      SrcTableIDNameMapping = Map.empty, TableNameMapping = [(''public.t'', ''public.t'')]\<rparr>"

definition example_pulled_batch :: "string RecordBatch" where
  "example_pulled_batch =
     \<lparr>Records = [InsertRecord 10 ''public.t'' ''id=1'' {||}],
      FirstCheckPointID = 10, LastCheckPointID = 10\<rparr>"

definition example_pull_env :: "SlotCheckResult \<Rightarrow> (string, (unit, unit) world) pull_env" where
  "example_pull_env check =
     \<lparr>checkSlotAndPublication = (\<lambda>slotName publicationName w. Inr check),
      NewPostgresCDCSource_err = (\<lambda>cfg.
         if Slot cfg = ''peerflow_slot_job'' then None else Some (External ''no such slot'')),
      cdc_PullRecords = (\<lambda>cfg req w.
         if Publication cfg = '''' then (Inr example_pulled_batch, w)
         else (Inl (External ''no such publication''), w)),
      getApproxTableCounts_err = (\<lambda>tables w. None),
      CDCMirrorMonitor_present = False,
      getCurrentLSN = (\<lambda>w. Inr 0),
      UpdateLatestLSNAtSourceForCDCFlow = (\<lambda>jobName lsn w. (None, w))\<rparr>"

definition example_world :: "(unit, unit) world" where
  "example_world = \<lparr>dest = example_db, outside = ()\<rparr>"

text \<open>A destination without metadata, and a sync followed by a normalize on it.\<close>

definition example_db_fresh :: "unit destination" where
  "example_db_fresh =
     \<lparr>mirror_jobs = Map.empty, raw_tables = (\<lambda>table. []), normalized_tables = ()\<rparr>"

definition example_operations :: "(string, unit) operation list" where
  "example_operations =
     [Sync example_sync_env example_sync_request,
      Normalize example_normalize_env example_normalize_request]"

definition example_db_after_operations :: "unit destination" where
  "example_db_after_operations =
     \<lparr>mirror_jobs = [''job'' \<mapsto> \<lparr>last_offset = 12, sync_batch_id = 1, normalize_batch_id = 1\<rparr>],
      raw_tables = (\<lambda>table. [])(''_peerdb_raw_job'' :=
         map (\<lambda>row. row\<lparr>peerdb_batch_id := 1\<rparr>) example_rows),
      normalized_tables = ()\<rparr>"

section \<open>Properties of util.RandomString\<close>

lemma length_alphanum: "length alphanum = 62"
  by (simp add: alphanum_def)

lemma alphanum_at_mem: "alphanum_at b \<in> set alphanum"
proof -
  have "unat (b mod 62) = unat b mod 62"
    by (simp add: unat_mod_distrib)
  then have "unat (b mod 62) < length alphanum"
    by (simp add: length_alphanum)
  then show ?thesis
    by (simp add: alphanum_at_def length_alphanum)
qed

lemma alphanum_is_alphanumeric: "list_all is_alphanumeric alphanum"
  by (simp add: alphanum_def is_alphanumeric_def less_eq_char_def)

lemma distinct_alphanum: "distinct alphanum"
  by (simp add: alphanum_def)


text \<open>
  Claim C10. For every \<open>n \<ge> 0\<close>: when the random source fills the buffer,
  \<open>RandomString n\<close> returns a string of exactly \<open>n\<close> characters, each taken from the
  62 distinct characters of \<open>alphanum\<close>, all in \<open>[0-9A-Za-z]\<close>; when reading the random
  bytes fails it returns \<open>"temp"\<close>, of length 4 whatever \<open>n\<close> is.
\<close>

theorem RandomString_alphanumeric:
  assumes "0 \<le> n"
  shows "(\<exists>s. RandomString (ReadFills f) n = Returned s \<and> int (length s) = n \<and>
              list_all (\<lambda>c. c \<in> set alphanum \<and> is_alphanumeric c) s) \<and>
         RandomString (ReadFails e) n = Returned ''temp'' \<and> length ''temp'' = 4 \<and>
         length alphanum = 62 \<and> distinct alphanum"
proof -
  have mem: "\<And>b. is_alphanumeric (alphanum_at b)"
    using alphanum_is_alphanumeric alphanum_at_mem by (auto simp: list_all_iff)
  have "list_all (\<lambda>c. c \<in> set alphanum \<and> is_alphanumeric c) (map alphanum_at (map f [0..<nat n]))"
    by (simp add: list_all_iff alphanum_at_mem mem)
  with assms show ?thesis
    by (simp add: RandomString_def rand_Read_def length_alphanum distinct_alphanum)
qed

theorem RandomString_alphanumeric_witness:
  "(0::int) \<le> 3 \<and>
   RandomString (ReadFills (\<lambda>i. 250 + word_of_nat i)) 3 = Returned ''234'' \<and>
   (\<exists>s. RandomString (ReadFills (\<lambda>i. 250 + word_of_nat i)) 3 = Returned s \<and> int (length s) = 3 \<and>
              list_all (\<lambda>c. c \<in> set alphanum \<and> is_alphanumeric c) s) \<and>
   RandomString (ReadFails (External ''EOF'')) 3 = Returned ''temp''"
proof -
  have h: "(0::int) \<le> 3" by simp
  have e: "RandomString (ReadFills (\<lambda>i. 250 + word_of_nat i)) 3 = Returned ''234''"
    by (simp add: RandomString_def rand_Read_def alphanum_at_def alphanum_def upt_rec)
  show ?thesis
    using RandomString_alphanumeric [OF h, of "\<lambda>i. 250 + word_of_nat i" "External ''EOF''"] e by simp
qed

section \<open>Properties of recordHeartbeatWithRecover\<close>

text \<open>
  Claim C9. Whatever \<open>activity.RecordHeartbeat\<close> does, \<open>recordHeartbeatWithRecover\<close>
  returns to its caller and never panics. A panic of the heartbeat (with the message
  Temporal raises outside a workflow, or any other) is recovered, and the only thing
  done about it is to log the two warnings; a heartbeat that returns logs nothing.
\<close>

theorem recordHeartbeatWithRecover_recovers:
  "recordHeartbeatWithRecover RecordHeartbeat details (s, logs) =
     (Returned (), snd (RecordHeartbeat details s),
      logs @ (case fst (RecordHeartbeat details s) of
                Panicked (Val msg) \<Rightarrow>
                  [(Warn, ''ignoring panic from activity.RecordHeartbeat''),
                   (Warn, ''this can happen when function is invoked outside of a Temporal workflow'')]
              | _ \<Rightarrow> []))"
  by (auto simp: recordHeartbeatWithRecover_def Let_def split: prod.splits outcome.splits go_value.splits)


section \<open>Properties of GetLastOffset\<close>

text \<open>
  What \<open>GetLastOffset\<close> does when \<open>Query\<close> returns no error, reading the rows does not
  fail and \<open>Scan\<close> succeeds: nil for a job without a row and for a stored offset 0, and
  a state carrying the stored offset exactly for a row with a non-zero offset. Whatever
  fails, a state that is returned carries the non-zero offset of an existing row.
\<close>

lemma GetLastOffset_rows_read:
  "(mirror_jobs db jobName = None \<longrightarrow> GetLastOffset None None None db jobName = Inr None) \<and>
   (\<forall>m. mirror_jobs db jobName = Some m \<and> last_offset m = 0 \<longrightarrow>
        GetLastOffset None None None db jobName = Inr None) \<and>
   (\<forall>state. GetLastOffset None None None db jobName = Inr (Some state) \<longleftrightarrow>
        (\<exists>m. mirror_jobs db jobName = Some m \<and> last_offset m \<noteq> 0 \<and>
             state = \<lparr>Checkpoint = last_offset m\<rparr>))"
  by (auto simp: GetLastOffset_def rows_Next_def Let_def split: option.splits)

lemma GetLastOffset_state_is_stored:
  "GetLastOffset query_err next_err scan_err db jobName = Inr (Some state) \<Longrightarrow>
   \<exists>m. mirror_jobs db jobName = Some m \<and> last_offset m \<noteq> 0 \<and>
       state = \<lparr>Checkpoint = last_offset m\<rparr>"
  by (auto simp: GetLastOffset_def rows_Next_def Let_def split: option.splits if_splits)

lemma GetLastOffset_rows_error:
  "GetLastOffset None (Some err) scan_err db jobName = Inr None"
  by (simp add: GetLastOffset_def rows_Next_def)

text \<open>
  Claim C7. \<open>GetLastOffset\<close> is to return nil without an error when the job has no
  metadata row or the stored offset is 0, and a non-nil checkpoint exactly when a row
  exists with a non-zero stored offset. The code breaks the second half: when \<open>Query\<close>
  returns no error and the execution then fails, \<open>rows.Next()\<close> is false, the error
  stays unread in \<open>rows.Err()\<close>, and the call returns nil without an error for the
  example job, whose row stores offset 5; when the rows are read it returns that
  checkpoint.
\<close>

theorem GetLastOffset_swallows_rows_error:
  "mirror_jobs example_db ''job'' =
     Some \<lparr>last_offset = 5, sync_batch_id = 3, normalize_batch_id = 1\<rparr> \<and>
   GetLastOffset None (Some (External ''unexpected EOF'')) None example_db ''job'' = Inr None \<and>
   GetLastOffset None None None example_db ''job'' = Inr (Some \<lparr>Checkpoint = 5\<rparr>)"
  by (simp add: GetLastOffset_def rows_Next_def example_db_def)

section \<open>Properties of SyncRecords\<close>

lemma expand_record_row:
  assumes "expand_record env syncBatchID k r = Inr row"
  shows "expands_to (ToJSON env) r row" and "peerdb_batch_id row = syncBatchID"
  using assms
  by (auto simp: expand_record_def expands_to_def KeysToString_def
      split: Record.splits sum.splits)

lemma sync_loop_rows:
  "sync_loop env syncBatchID recs st = Inr st' \<Longrightarrow>
   \<exists>rows. records st' = records st @ rows \<and> length rows = length recs \<and>
     (\<forall>k < length recs.
        expand_record env syncBatchID (length (records st) + k) (recs ! k) = Inr (rows ! k))"
proof (induction recs arbitrary: st)
  case Nil
  then show ?case by simp
next
  case (Cons r rs)
  from Cons.prems obtain row where
    row: "expand_record env syncBatchID (length (records st)) r = Inr row"
    by (auto split: sum.splits)
  let ?st1 = "st\<lparr>records := records st @ [row],
                tableNameRowsMapping :=
                  increment_rows (tableNameRowsMapping st) (peerdb_destination_table_name row),
                first := False,
                firstCP := (if first st then GetCheckPointID r else firstCP st)\<rparr>"
  from Cons.prems row have "sync_loop env syncBatchID rs ?st1 = Inr st'"
    by simp
  from Cons.IH [OF this] obtain rows where
    rows: "records st' = records ?st1 @ rows" "length rows = length rs"
      "\<forall>k < length rs. expand_record env syncBatchID (length (records ?st1) + k) (rs ! k) = Inr (rows ! k)"
    by blast
  have "\<forall>k < length (r # rs).
        expand_record env syncBatchID (length (records st) + k) ((r # rs) ! k) = Inr ((row # rows) ! k)"
  proof (intro allI impI)
    fix k assume "k < length (r # rs)"
    then show "expand_record env syncBatchID (length (records st) + k) ((r # rs) ! k) = Inr ((row # rows) ! k)"
      using row rows(3) by (cases k) auto
  qed
  with rows(1,2) show ?case
    by (intro exI [of _ "row # rows"]) simp
qed

lemma sync_loop_from_empty:
  assumes "sync_loop env syncBatchID recs
             \<lparr>records = [], tableNameRowsMapping = Map.empty, first = True, firstCP = 0\<rparr> = Inr st"
  shows "length (records st) = length recs"
    and "list_all2 (expands_to (ToJSON env)) recs (records st)"
    and "list_all (\<lambda>row. peerdb_batch_id row = syncBatchID) (records st)"
proof -
  from sync_loop_rows [OF assms] have
    len: "length (records st) = length recs" and
    each: "\<forall>k < length recs. expand_record env syncBatchID k (recs ! k) = Inr (records st ! k)"
    by auto
  show "length (records st) = length recs" by (rule len)
  show "list_all2 (expands_to (ToJSON env)) recs (records st)"
    using len each by (auto simp: list_all2_conv_all_nth intro: expand_record_row(1))
  show "list_all (\<lambda>row. peerdb_batch_id row = syncBatchID) (records st)"
    using len each by (auto simp: list_all_length dest: expand_record_row(2))
qed

lemma sync_loop_firstCP:
  "sync_loop env syncBatchID recs st = Inr st' \<Longrightarrow>
   firstCP st' = (if first st \<and> recs \<noteq> [] then GetCheckPointID (hd recs) else firstCP st) \<and>
   first st' = (first st \<and> recs = [])"
proof (induction recs arbitrary: st)
  case Nil
  then show ?case by simp
next
  case (Cons r rs)
  from Cons.prems obtain row where
    row: "expand_record env syncBatchID (length (records st)) r = Inr row"
    by (auto split: sum.splits)
  with Cons.prems Cons.IH show ?case
    by fastforce
qed

lemma SyncRecords_error_keeps_destination:
  "SyncRecords env req db = (Inl err, db') \<Longrightarrow> db' = db"
  by (auto simp: SyncRecords_def Let_def split: sum.splits option.splits if_splits)

lemma SyncRecords_success_cases:
  assumes "SyncRecords env req db = (Inr res, db')"
    and "Records (sync_Records req) \<noteq> []"
  shows "\<exists>old st. GetLastSyncBatchID (sync_GetLastSyncBatchID_err env) db (sync_FlowJobName req) = Inr old \<and>
     sync_loop env (old + 1) (Records (sync_Records req))
        \<lparr>records = [], tableNameRowsMapping = Map.empty, first = True, firstCP = 0\<rparr> = Inr st \<and>
     res = \<lparr>FirstSyncedCheckPointID = firstCP st,
            LastSyncedCheckPointID = LastCheckPointID (sync_Records req),
            NumRecordsSynced = int (length (records st)),
            CurrentSyncBatchID = old + 1,
            TableNameRowsMapping = tableNameRowsMapping st\<rparr> \<and>
     db' = db\<lparr>raw_tables := (raw_tables db)(getRawTableIdentifier (sync_FlowJobName req) :=
                 raw_tables db (getRawTableIdentifier (sync_FlowJobName req)) @ records st),
              mirror_jobs := (mirror_jobs db)(sync_FlowJobName req \<mapsto>
                (case mirror_jobs db (sync_FlowJobName req) of
                   None \<Rightarrow> \<lparr>last_offset = LastCheckPointID (sync_Records req),
                             sync_batch_id = old + 1, normalize_batch_id = 0\<rparr>
                 | Some m \<Rightarrow> m\<lparr>last_offset := LastCheckPointID (sync_Records req),
                               sync_batch_id := old + 1\<rparr>))\<rparr>"
proof -
  from assms(1) obtain old where
    old: "GetLastSyncBatchID (sync_GetLastSyncBatchID_err env) db (sync_FlowJobName req) = Inr old"
    by (auto simp: SyncRecords_def split: sum.splits)
  from assms(1) old obtain st where
    st: "sync_loop env (old + 1) (Records (sync_Records req))
        \<lparr>records = [], tableNameRowsMapping = Map.empty, first = True, firstCP = 0\<rparr> = Inr st"
    by (auto simp: SyncRecords_def Let_def split: sum.splits)
  from sync_loop_rows [OF st] assms(2) have ne: "length (records st) \<noteq> 0"
    by auto
  from assms(1) old st ne have
    tx: "SyncRecords_tx env req (old + 1) st db = Inr (res, db')" and "sync_Begin_err env = None"
    by (auto simp: SyncRecords_def Let_def split: sum.splits option.splits)
  from tx show ?thesis
    using old st
    by (auto simp: SyncRecords_tx_def CopyFrom_def updateSyncMetadata_def Let_def
        split: sum.splits option.splits if_splits)
qed

lemma KeysToString_examples:
  "KeysToString {||} = []" "KeysToString {|''v'', ''big''|} = ''big,v''"
  by code_simp+

lemma sync_loop_example:
  "sync_loop (example_sync_env\<lparr>CopyFrom_result := c, sync_Commit_err := e\<rparr>) 4 example_records
     \<lparr>records = [], tableNameRowsMapping = Map.empty, first = True, firstCP = 0\<rparr> =
   Inr \<lparr>records = example_rows, tableNameRowsMapping = [''public.t'' \<mapsto> 3],
        first = False, firstCP = 10\<rparr>"
  by (simp add: example_sync_env_def example_records_def example_rows_def expand_record_def
      KeysToString_examples increment_rows_def GetCheckPointID_def)

lemma length_example_rows: "length example_rows = 3"
  by (simp add: example_rows_def)

lemma SyncRecords_tx_example:
  "SyncRecords_tx example_sync_env example_sync_request 4
     \<lparr>records = example_rows, tableNameRowsMapping = [''public.t'' \<mapsto> 3],
        first = False, firstCP = 10\<rparr> example_db =
   Inr (\<lparr>FirstSyncedCheckPointID = 10, LastSyncedCheckPointID = 12, NumRecordsSynced = 3,
           CurrentSyncBatchID = 4, TableNameRowsMapping = [''public.t'' \<mapsto> 3]\<rparr>,
      example_db_synced)"
  by (simp add: SyncRecords_tx_def CopyFrom_def updateSyncMetadata_def getRawTableIdentifier_def
      example_sync_env_def example_sync_request_def example_db_def example_db_synced_def
      length_example_rows)

lemma GetLastSyncBatchID_example:
  "GetLastSyncBatchID None example_db ''job'' = Inr 3"
  by (simp add: GetLastSyncBatchID_def example_db_def)

lemma SyncRecords_example:
  "SyncRecords example_sync_env example_sync_request example_db =
     (Inr \<lparr>FirstSyncedCheckPointID = 10, LastSyncedCheckPointID = 12, NumRecordsSynced = 3,
           CurrentSyncBatchID = 4, TableNameRowsMapping = [''public.t'' \<mapsto> 3]\<rparr>,
      example_db_synced)"
proof -
  have e: "sync_GetLastSyncBatchID_err example_sync_env = None"
      "sync_Begin_err example_sync_env = None"
    by (simp_all add: example_sync_env_def)
  have r: "Records (sync_Records example_sync_request) = example_records"
      "sync_FlowJobName example_sync_request = ''job''"
    by (simp_all add: example_sync_request_def)
  have l: "sync_loop example_sync_env 4 example_records
     \<lparr>records = [], tableNameRowsMapping = Map.empty, first = True, firstCP = 0\<rparr> =
   Inr \<lparr>records = example_rows, tableNameRowsMapping = [''public.t'' \<mapsto> 3],
        first = False, firstCP = 10\<rparr>"
    using sync_loop_example [where c = "Inr 3" and e = None] by (simp add: example_sync_env_def)
  show ?thesis
    by (simp add: SyncRecords_def e r GetLastSyncBatchID_example l length_example_rows
        SyncRecords_tx_example)
qed

lemma example_records_not_empty: "Records (sync_Records example_sync_request) \<noteq> []"
  by (simp add: example_sync_request_def example_records_def)


text \<open>
  Claim C1. For every non-empty batch: if the row count that COPY reports differs from
  the number of records of the batch, \<open>SyncRecords\<close> returns an error and the committed
  destination is the one before the call (the transaction is rolled back), so that
  \<open>last_offset\<close> and \<open>sync_batch_id\<close> do not advance. When the steps before the check
  succeed, the error is the one of the check, raised before the metadata update.
\<close>

theorem SyncRecords_row_count_mismatch:
  assumes "Records (sync_Records req) \<noteq> []"
    and "CopyFrom_result env = Inr n"
    and "n \<noteq> int (length (Records (sync_Records req)))"
  shows "(\<exists>err. SyncRecords env req db = (Inl err, db)) \<and>
         (\<forall>old st.
            GetLastSyncBatchID (sync_GetLastSyncBatchID_err env) db (sync_FlowJobName req) = Inr old \<and>
            sync_loop env (old + 1) (Records (sync_Records req))
              \<lparr>records = [], tableNameRowsMapping = Map.empty, first = True, firstCP = 0\<rparr> = Inr st \<and>
            sync_Begin_err env = None \<longrightarrow>
            SyncRecords env req db =
              (Inl (RecordCountMismatch (length (Records (sync_Records req))) n), db))"
proof -
  have tx: "SyncRecords_tx env req syncBatchID st db =
              Inl (RecordCountMismatch (length (Records (sync_Records req))) n)"
    if "length (records st) = length (Records (sync_Records req))" for syncBatchID st
    using that assms(2,3) by (simp add: SyncRecords_tx_def CopyFrom_def)
  have general: "\<exists>err. SyncRecords env req db = (Inl err, db)"
  proof (cases "GetLastSyncBatchID (sync_GetLastSyncBatchID_err env) db (sync_FlowJobName req)")
    case (Inl err)
    then show ?thesis by (simp add: SyncRecords_def)
  next
    case (Inr old)
    show ?thesis
    proof (cases "sync_loop env (old + 1) (Records (sync_Records req))
              \<lparr>records = [], tableNameRowsMapping = Map.empty, first = True, firstCP = 0\<rparr>")
      case (Inl err)
      with Inr show ?thesis by (simp add: SyncRecords_def)
    next
      case loop: (Inr st)
      from sync_loop_from_empty(1) [OF loop] have
        len: "length (records st) = length (Records (sync_Records req))" .
      with assms(1) have "records st \<noteq> []" by auto
      with Inr loop tx [OF len] show ?thesis
        by (simp add: SyncRecords_def split: option.splits)
    qed
  qed
  have specific: "SyncRecords env req db =
              (Inl (RecordCountMismatch (length (Records (sync_Records req))) n), db)"
    if old: "GetLastSyncBatchID (sync_GetLastSyncBatchID_err env) db (sync_FlowJobName req) = Inr old"
      and loop: "sync_loop env (old + 1) (Records (sync_Records req))
              \<lparr>records = [], tableNameRowsMapping = Map.empty, first = True, firstCP = 0\<rparr> = Inr st"
      and beg: "sync_Begin_err env = None" for old st
  proof -
    from sync_loop_from_empty(1) [OF loop] have
      len: "length (records st) = length (Records (sync_Records req))" .
    with assms(1) have "records st \<noteq> []" by auto
    with old loop beg tx [OF len] show ?thesis
      by (simp add: SyncRecords_def)
  qed
  from general specific show ?thesis by blast
qed

theorem SyncRecords_row_count_mismatch_witness:
  "SyncRecords (example_sync_env\<lparr>CopyFrom_result := Inr 2, sync_Commit_err := None\<rparr>)
     example_sync_request example_db = (Inl (RecordCountMismatch 3 2), example_db)"
proof -
  let ?env = "example_sync_env\<lparr>CopyFrom_result := Inr 2, sync_Commit_err := None\<rparr>"
  have h1: "Records (sync_Records example_sync_request) \<noteq> []"
    by (rule example_records_not_empty)
  have h2: "CopyFrom_result ?env = Inr 2"
    by simp
  have h3: "(2::int) \<noteq> int (length (Records (sync_Records example_sync_request)))"
    by (simp add: example_sync_request_def example_records_def)
  have h4: "GetLastSyncBatchID (sync_GetLastSyncBatchID_err ?env) example_db
              (sync_FlowJobName example_sync_request) = Inr 3"
    by (simp add: example_sync_env_def example_sync_request_def GetLastSyncBatchID_example)
  have h5: "sync_loop ?env (3 + 1) (Records (sync_Records example_sync_request))
              \<lparr>records = [], tableNameRowsMapping = Map.empty, first = True, firstCP = 0\<rparr> =
            Inr \<lparr>records = example_rows, tableNameRowsMapping = [''public.t'' \<mapsto> 3],
                 first = False, firstCP = 10\<rparr>"
    using sync_loop_example [where c = "Inr 2" and e = None]
    by (simp add: example_sync_request_def)
  have h6: "sync_Begin_err ?env = None"
    by (simp add: example_sync_env_def)
  have len: "length (Records (sync_Records example_sync_request)) = 3"
    by (simp add: example_sync_request_def example_records_def)
  from SyncRecords_row_count_mismatch [OF h1 h2 h3, of example_db] h4 h5 h6
  have "SyncRecords ?env example_sync_request example_db =
          (Inl (RecordCountMismatch (length (Records (sync_Records example_sync_request))) 2),
           example_db)"
    by blast
  then show ?thesis by (simp only: len)
qed

text \<open>
  Claim C3. For every non-empty batch, a successful \<open>SyncRecords\<close> uses as new batch id
  the stored \<open>sync_batch_id\<close> plus one (in 64-bit arithmetic; a job without a row reads
  as 0). The destination it commits differs from the one before in exactly two ways,
  made in one transaction: the raw table of the job has one row per record appended,
  each with the new batch id, and the job's metadata row has \<open>last_offset\<close> set to the
  batch's last checkpoint and \<open>sync_batch_id\<close> to the new id. The response carries the
  new batch id, the checkpoint of the first record, the batch's last checkpoint, and the
  number of records. A call that fails commits neither change.
\<close>

theorem SyncRecords_success:
  assumes "Records (sync_Records req) \<noteq> []"
    and "SyncRecords env req db = (Inr res, db')"
  shows "\<exists>old rows m'.
     GetLastSyncBatchID (sync_GetLastSyncBatchID_err env) db (sync_FlowJobName req) = Inr old \<and>
     old = (case mirror_jobs db (sync_FlowJobName req) of None \<Rightarrow> 0 | Some m \<Rightarrow> sync_batch_id m) \<and>
     CurrentSyncBatchID res = old + 1 \<and>
     FirstSyncedCheckPointID res = GetCheckPointID (hd (Records (sync_Records req))) \<and>
     LastSyncedCheckPointID res = LastCheckPointID (sync_Records req) \<and>
     NumRecordsSynced res = int (length (Records (sync_Records req))) \<and>
     length rows = length (Records (sync_Records req)) \<and>
     list_all (\<lambda>row. peerdb_batch_id row = old + 1) rows \<and>
     last_offset m' = LastCheckPointID (sync_Records req) \<and>
     sync_batch_id m' = old + 1 \<and>
     normalize_batch_id m' =
       (case mirror_jobs db (sync_FlowJobName req) of None \<Rightarrow> 0 | Some m \<Rightarrow> normalize_batch_id m) \<and>
     db' = db\<lparr>raw_tables := (raw_tables db)(getRawTableIdentifier (sync_FlowJobName req) :=
                 raw_tables db (getRawTableIdentifier (sync_FlowJobName req)) @ rows),
              mirror_jobs := (mirror_jobs db)(sync_FlowJobName req \<mapsto> m')\<rparr> \<and>
     (\<forall>env' err db''. SyncRecords env' req db = (Inl err, db'') \<longrightarrow> db'' = db)"
proof -
  from SyncRecords_success_cases [OF assms(2,1)] obtain old st where
    old: "GetLastSyncBatchID (sync_GetLastSyncBatchID_err env) db (sync_FlowJobName req) = Inr old"
    and loop: "sync_loop env (old + 1) (Records (sync_Records req))
        \<lparr>records = [], tableNameRowsMapping = Map.empty, first = True, firstCP = 0\<rparr> = Inr st"
    and res: "res = \<lparr>FirstSyncedCheckPointID = firstCP st,
            LastSyncedCheckPointID = LastCheckPointID (sync_Records req),
            NumRecordsSynced = int (length (records st)),
            CurrentSyncBatchID = old + 1,
            TableNameRowsMapping = tableNameRowsMapping st\<rparr>"
    and db': "db' = db\<lparr>raw_tables := (raw_tables db)(getRawTableIdentifier (sync_FlowJobName req) :=
                 raw_tables db (getRawTableIdentifier (sync_FlowJobName req)) @ records st),
              mirror_jobs := (mirror_jobs db)(sync_FlowJobName req \<mapsto>
                (case mirror_jobs db (sync_FlowJobName req) of
                   None \<Rightarrow> \<lparr>last_offset = LastCheckPointID (sync_Records req),
                             sync_batch_id = old + 1, normalize_batch_id = 0\<rparr>
                 | Some m \<Rightarrow> m\<lparr>last_offset := LastCheckPointID (sync_Records req),
                               sync_batch_id := old + 1\<rparr>))\<rparr>"
    by blast
  let ?m' = "case mirror_jobs db (sync_FlowJobName req) of
                   None \<Rightarrow> \<lparr>last_offset = LastCheckPointID (sync_Records req),
                             sync_batch_id = old + 1, normalize_batch_id = 0\<rparr>
                 | Some m \<Rightarrow> m\<lparr>last_offset := LastCheckPointID (sync_Records req),
                               sync_batch_id := old + 1\<rparr>"
  have stored: "old = (case mirror_jobs db (sync_FlowJobName req) of None \<Rightarrow> 0 | Some m \<Rightarrow> sync_batch_id m)"
    using old by (auto simp: GetLastSyncBatchID_def split: option.splits)
  have first: "firstCP st = GetCheckPointID (hd (Records (sync_Records req)))"
    using sync_loop_firstCP [OF loop] assms(1) by simp
  have len: "length (records st) = length (Records (sync_Records req))"
    by (rule sync_loop_from_empty(1) [OF loop])
  have ids: "list_all (\<lambda>row. peerdb_batch_id row = old + 1) (records st)"
    by (rule sync_loop_from_empty(3) [OF loop])
  have m': "last_offset ?m' = LastCheckPointID (sync_Records req)"
      "sync_batch_id ?m' = old + 1"
      "normalize_batch_id ?m' =
         (case mirror_jobs db (sync_FlowJobName req) of None \<Rightarrow> 0 | Some m \<Rightarrow> normalize_batch_id m)"
    by (simp_all split: option.splits)
  have atomic: "\<forall>env' err db''. SyncRecords env' req db = (Inl err, db'') \<longrightarrow> db'' = db"
    using SyncRecords_error_keeps_destination by blast
  show ?thesis
    apply (rule exI [of _ old], rule exI [of _ "records st"], rule exI [of _ ?m'])
    using old stored first len ids m' atomic
    by (simp add: res db')
qed

theorem SyncRecords_success_witness:
  "SyncRecords example_sync_env example_sync_request example_db =
     (Inr \<lparr>FirstSyncedCheckPointID = 10, LastSyncedCheckPointID = 12, NumRecordsSynced = 3,
           CurrentSyncBatchID = 4, TableNameRowsMapping = [''public.t'' \<mapsto> 3]\<rparr>,
      example_db_synced) \<and>
   SyncRecords (example_sync_env\<lparr>CopyFrom_result := Inr 2, sync_Commit_err := None\<rparr>)
     example_sync_request example_db = (Inl (RecordCountMismatch 3 2), example_db) \<and>
   (\<exists>rows m'. length rows = 3 \<and> list_all (\<lambda>row. peerdb_batch_id row = 3 + 1) rows \<and>
      last_offset m' = 12 \<and> sync_batch_id m' = 3 + 1 \<and> normalize_batch_id m' = 1 \<and>
      example_db_synced =
        example_db\<lparr>raw_tables := (raw_tables example_db)(''_peerdb_raw_job'' :=
                       raw_tables example_db ''_peerdb_raw_job'' @ rows),
                   mirror_jobs := (mirror_jobs example_db)(''job'' \<mapsto> m')\<rparr>)"
proof -
  let ?env' = "example_sync_env\<lparr>CopyFrom_result := Inr 2, sync_Commit_err := None\<rparr>"
  have h1: "Records (sync_Records example_sync_request) \<noteq> []"
    by (rule example_records_not_empty)
  note h2 = SyncRecords_example
  have bad: "SyncRecords ?env' example_sync_request example_db = (Inl (RecordCountMismatch 3 2), example_db)"
  proof -
    have "sync_loop ?env' 4 example_records
        \<lparr>records = [], tableNameRowsMapping = Map.empty, first = True, firstCP = 0\<rparr> =
      Inr \<lparr>records = example_rows, tableNameRowsMapping = [''public.t'' \<mapsto> 3],
           first = False, firstCP = 10\<rparr>"
      by (rule sync_loop_example)
    then show ?thesis
      by (simp add: SyncRecords_def SyncRecords_tx_def CopyFrom_def example_sync_request_def
          example_sync_env_def GetLastSyncBatchID_example length_example_rows)
  qed
  from SyncRecords_success [OF h1 h2] obtain old rows m' where
    c: "GetLastSyncBatchID (sync_GetLastSyncBatchID_err example_sync_env) example_db
          (sync_FlowJobName example_sync_request) = Inr old"
      "length rows = length (Records (sync_Records example_sync_request))"
      "list_all (\<lambda>row. peerdb_batch_id row = old + 1) rows"
      "last_offset m' = LastCheckPointID (sync_Records example_sync_request)"
      "sync_batch_id m' = old + 1"
      "normalize_batch_id m' =
         (case mirror_jobs example_db (sync_FlowJobName example_sync_request) of
            None \<Rightarrow> 0 | Some m \<Rightarrow> normalize_batch_id m)"
      "example_db_synced =
         example_db\<lparr>raw_tables := (raw_tables example_db)
             (getRawTableIdentifier (sync_FlowJobName example_sync_request) :=
                raw_tables example_db (getRawTableIdentifier (sync_FlowJobName example_sync_request)) @ rows),
           mirror_jobs := (mirror_jobs example_db)(sync_FlowJobName example_sync_request \<mapsto> m')\<rparr>"
    and atomic: "\<forall>env' err db''. SyncRecords env' example_sync_request example_db = (Inl err, db'')
                   \<longrightarrow> db'' = example_db"
    by blast
  from c(1) have old: "old = 3"
    by (simp add: example_sync_env_def example_sync_request_def GetLastSyncBatchID_example)
  have j: "sync_FlowJobName example_sync_request = ''job''"
      "LastCheckPointID (sync_Records example_sync_request) = 12"
      "length (Records (sync_Records example_sync_request)) = 3"
      "getRawTableIdentifier ''job'' = ''_peerdb_raw_job''"
      "mirror_jobs example_db ''job'' =
         Some \<lparr>last_offset = 5, sync_batch_id = 3, normalize_batch_id = 1\<rparr>"
    by (simp_all add: example_sync_request_def example_records_def getRawTableIdentifier_def
        example_db_def)
  from c(2-7) have
    "length rows = 3 \<and> list_all (\<lambda>row. peerdb_batch_id row = 3 + 1) rows \<and>
      last_offset m' = 12 \<and> sync_batch_id m' = 3 + 1 \<and> normalize_batch_id m' = 1 \<and>
      example_db_synced =
        example_db\<lparr>raw_tables := (raw_tables example_db)(''_peerdb_raw_job'' :=
                       raw_tables example_db ''_peerdb_raw_job'' @ rows),
                   mirror_jobs := (mirror_jobs example_db)(''job'' \<mapsto> m')\<rparr>"
    unfolding old j by simp
  with h2 bad show ?thesis by blast
qed

text \<open>
  Claim C5. The rows a successful \<open>SyncRecords\<close> appends to the raw table are one per
  record of the batch, in the order of the batch, and the row of a record has:
  \<open>_record_type\<close> 0 for an insert, 1 for an update, 2 for a delete; \<open>_data\<close> the JSON of
  the new items (for a delete, of the items the record carries); \<open>_match_data\<close> the JSON
  of the old items for an update, \<open>{}\<close> for an insert, and \<open>_data\<close> again for a delete;
  \<open>_unchanged_toast_columns\<close> the names of the unchanged TOAST columns, sorted and
  joined by commas.
\<close>

theorem SyncRecords_raw_rows:
  assumes "Records (sync_Records req) \<noteq> []"
    and "SyncRecords env req db = (Inr res, db')"
  shows "\<exists>rows.
     raw_tables db' (getRawTableIdentifier (sync_FlowJobName req)) =
       raw_tables db (getRawTableIdentifier (sync_FlowJobName req)) @ rows \<and>
     list_all2 (expands_to (ToJSON env)) (Records (sync_Records req)) rows"
proof -
  from SyncRecords_success_cases [OF assms(2,1)] obtain old st where
    loop: "sync_loop env (old + 1) (Records (sync_Records req))
        \<lparr>records = [], tableNameRowsMapping = Map.empty, first = True, firstCP = 0\<rparr> = Inr st"
    and db': "db' = db\<lparr>raw_tables := (raw_tables db)(getRawTableIdentifier (sync_FlowJobName req) :=
                 raw_tables db (getRawTableIdentifier (sync_FlowJobName req)) @ records st),
              mirror_jobs := (mirror_jobs db)(sync_FlowJobName req \<mapsto>
                (case mirror_jobs db (sync_FlowJobName req) of
                   None \<Rightarrow> \<lparr>last_offset = LastCheckPointID (sync_Records req),
                             sync_batch_id = old + 1, normalize_batch_id = 0\<rparr>
                 | Some m \<Rightarrow> m\<lparr>last_offset := LastCheckPointID (sync_Records req),
                               sync_batch_id := old + 1\<rparr>))\<rparr>"
    by blast
  from sync_loop_from_empty(2) [OF loop] db' show ?thesis
    by (intro exI [of _ "records st"]) simp
qed

theorem SyncRecords_raw_rows_witness:
  "SyncRecords example_sync_env example_sync_request example_db =
     (Inr \<lparr>FirstSyncedCheckPointID = 10, LastSyncedCheckPointID = 12, NumRecordsSynced = 3,
           CurrentSyncBatchID = 4, TableNameRowsMapping = [''public.t'' \<mapsto> 3]\<rparr>,
      example_db_synced) \<and>
   raw_tables example_db_synced ''_peerdb_raw_job'' = example_rows \<and>
   list_all2 (expands_to (\<lambda>items. Inr (''json:'' @ items))) example_records example_rows"
proof -
  have h1: "Records (sync_Records example_sync_request) \<noteq> []"
    by (rule example_records_not_empty)
  from SyncRecords_raw_rows [OF h1 SyncRecords_example] obtain rows where
    r: "raw_tables example_db_synced (getRawTableIdentifier (sync_FlowJobName example_sync_request)) =
          raw_tables example_db (getRawTableIdentifier (sync_FlowJobName example_sync_request)) @ rows"
       "list_all2 (expands_to (ToJSON example_sync_env)) (Records (sync_Records example_sync_request)) rows"
    by blast
  from r(1) have rows: "rows = example_rows"
    by (simp add: example_db_synced_def example_db_def example_sync_request_def
        getRawTableIdentifier_def)
  have t: "ToJSON example_sync_env = (\<lambda>items. Inr (''json:'' @ items))"
    by (simp add: example_sync_env_def)
  have "raw_tables example_db_synced ''_peerdb_raw_job'' = example_rows"
    by (simp add: example_db_synced_def)
  moreover from r(2) have
    "list_all2 (expands_to (\<lambda>items. Inr (''json:'' @ items))) example_records example_rows"
    unfolding rows t by (simp add: example_sync_request_def)
  ultimately show ?thesis
    using SyncRecords_example by blast
qed

text \<open>
  Claim C8. With an empty batch, \<open>SyncRecords\<close> leaves the committed destination as it
  was: \<open>sync_batch_id\<close> is not incremented, \<open>last_offset\<close> is not written and no raw row
  is inserted. When the stored batch id can be read, the call returns the response
  with first checkpoint 0, last checkpoint 0 and 0 rows.
\<close>

theorem SyncRecords_empty_batch:
  assumes "Records (sync_Records req) = []"
  shows "snd (SyncRecords env req db) = db \<and>
         (sync_GetLastSyncBatchID_err env = None \<longrightarrow>
          fst (SyncRecords env req db) =
            Inr \<lparr>FirstSyncedCheckPointID = 0, LastSyncedCheckPointID = 0,
                 NumRecordsSynced = 0, CurrentSyncBatchID = 0,
                 TableNameRowsMapping = Map.empty\<rparr>)"
  using assms
  by (auto simp: SyncRecords_def GetLastSyncBatchID_def Let_def split: sum.splits option.splits)

theorem SyncRecords_empty_batch_witness:
  "SyncRecords example_sync_env example_empty_request example_db =
     (Inr \<lparr>FirstSyncedCheckPointID = 0, LastSyncedCheckPointID = 0,
           NumRecordsSynced = 0, CurrentSyncBatchID = 0,
           TableNameRowsMapping = Map.empty\<rparr>, example_db)"
proof -
  have h1: "Records (sync_Records example_empty_request) = []"
    by (simp add: example_empty_request_def)
  have h2: "sync_GetLastSyncBatchID_err example_sync_env = None"
    by (simp add: example_sync_env_def)
  from SyncRecords_empty_batch [OF h1, of example_sync_env example_db] h2
  show ?thesis
    by (simp add: prod_eq_iff)
qed


section \<open>Properties of NormalizeRecords\<close>

lemma sint_increment:
  fixes x :: int64
  assumes "sint x < 9223372036854775807"
  shows "sint (x + 1) = sint x + 1"
proof -
  have lower: "- (2 ^ 63) \<le> sint x"
    using sint_ge [of x] by simp
  have "sint (x + 1) = signed_take_bit 63 (sint x + 1)"
    by (simp add: sint_word_add)
  also have "\<dots> = sint x + 1"
    using assms lower by (intro signed_take_bit_int_eq_self) simp_all
  finally show ?thesis .
qed

lemma SyncRecords_no_records:
  "Records (sync_Records req) = [] \<Longrightarrow> snd (SyncRecords env req db) = db"
  by (auto simp: SyncRecords_def Let_def split: sum.splits)

lemma NormalizeRecords_error_keeps_destination:
  "NormalizeRecords env req db = (Inl err, db') \<Longrightarrow> db' = db"
  by (auto simp: NormalizeRecords_def Let_def split: sum.splits option.splits if_splits)

text \<open>
  A successful run either found nothing to do and changed nothing, or committed new
  normalized tables together with \<open>normalize_batch_id\<close> set to the batch id it read.
\<close>

lemma NormalizeRecords_success_cases:
  assumes "NormalizeRecords env req db = (Inr res, db')"
  shows "\<exists>S N. GetLastSyncBatchID None db (normalize_FlowJobName req) = Inr S \<and>
     getLastNormalizeBatchID None db (normalize_FlowJobName req) = Inr N \<and>
     (((S = N \<or> mirror_jobs db (normalize_FlowJobName req) = None) \<and>
        res = \<lparr>Done = True, StartBatchID = N, EndBatchID = S\<rparr> \<and> db' = db) \<or>
      (\<exists>m tables. S \<noteq> N \<and> mirror_jobs db (normalize_FlowJobName req) = Some m \<and>
        res = \<lparr>Done = True, StartBatchID = N + 1, EndBatchID = S\<rparr> \<and>
        db' = db\<lparr>normalized_tables := tables,
                 mirror_jobs := (mirror_jobs db)(normalize_FlowJobName req \<mapsto>
                    m\<lparr>normalize_batch_id := S\<rparr>)\<rparr>))"
proof -
  from assms obtain S N ex where
    reads: "GetLastSyncBatchID (norm_GetLastSyncBatchID_err env) db (normalize_FlowJobName req) = Inr S"
      "getLastNormalizeBatchID (getLastNormalizeBatchID_err env) db (normalize_FlowJobName req) = Inr N"
      "jobMetadataExists (jobMetadataExists_err env) db (normalize_FlowJobName req) = Inr ex"
    by (auto simp: NormalizeRecords_def split: sum.splits)
  then have plain: "GetLastSyncBatchID None db (normalize_FlowJobName req) = Inr S"
      "getLastNormalizeBatchID None db (normalize_FlowJobName req) = Inr N"
      "ex = (mirror_jobs db (normalize_FlowJobName req) \<noteq> None)"
    by (auto simp: GetLastSyncBatchID_def getLastNormalizeBatchID_def jobMetadataExists_def
        split: option.splits)
  show ?thesis
  proof (cases "S = N \<or> \<not> ex")
    case True
    with assms reads have "res = \<lparr>Done = True, StartBatchID = N, EndBatchID = S\<rparr> \<and> db' = db"
      by (auto simp: NormalizeRecords_def)
    with True plain show ?thesis by auto
  next
    case False
    with plain(3) obtain m where m: "mirror_jobs db (normalize_FlowJobName req) = Some m"
      by auto
    from False assms reads obtain cols where
      tx: "NormalizeRecords_tx env req S N cols db = Inr (res, db')"
      by (auto simp: NormalizeRecords_def split: sum.splits option.splits)
    then have "\<exists>tables. res = \<lparr>Done = True, StartBatchID = N + 1, EndBatchID = S\<rparr> \<and>
        db' = db\<lparr>normalized_tables := tables,
                 mirror_jobs := (mirror_jobs db)(normalize_FlowJobName req \<mapsto>
                    m\<lparr>normalize_batch_id := S\<rparr>)\<rparr>"
      using m
      by (auto simp: NormalizeRecords_tx_def updateNormalizeMetadata_def Let_def
          split: sum.splits option.splits if_splits intro: exI [of _ "normalized_tables db"])
    with False m plain show ?thesis by auto
  qed
qed

lemma NormalizeRecords_example:
  "NormalizeRecords example_normalize_env example_normalize_request example_db =
     (Inr \<lparr>Done = True, StartBatchID = 2, EndBatchID = 3\<rparr>, example_db_normalized)"
  by (simp add: NormalizeRecords_def NormalizeRecords_tx_def GetLastSyncBatchID_def
      getLastNormalizeBatchID_def jobMetadataExists_def updateNormalizeMetadata_def
      queue_statements_def example_normalize_env_def example_normalize_request_def
      example_db_def example_db_normalized_def)

lemma NormalizeRecords_example_again:
  "NormalizeRecords example_normalize_env example_normalize_request example_db_normalized =
     (Inr \<lparr>Done = True, StartBatchID = 3, EndBatchID = 3\<rparr>, example_db_normalized)"
  by (simp add: NormalizeRecords_def GetLastSyncBatchID_def
      getLastNormalizeBatchID_def jobMetadataExists_def
      example_normalize_env_def example_normalize_request_def example_db_normalized_def)

lemma SyncRecords_ids:
  assumes "SyncRecords env req db = (Inr res, db')"
    and "GetLastSyncBatchID None db (sync_FlowJobName req) = Inr old"
  shows "getLastNormalizeBatchID None db' (sync_FlowJobName req) =
           getLastNormalizeBatchID None db (sync_FlowJobName req)"
    and "GetLastSyncBatchID None db' (sync_FlowJobName req) = Inr old \<or>
         GetLastSyncBatchID None db' (sync_FlowJobName req) = Inr (old + 1)"
proof -
  have "getLastNormalizeBatchID None db' (sync_FlowJobName req) =
           getLastNormalizeBatchID None db (sync_FlowJobName req) \<and>
        (GetLastSyncBatchID None db' (sync_FlowJobName req) = Inr old \<or>
         GetLastSyncBatchID None db' (sync_FlowJobName req) = Inr (old + 1))"
  proof (cases "Records (sync_Records req) = []")
    case True
    from SyncRecords_no_records [OF True, of env db] assms(1) have "db' = db"
      by simp
    with assms(2) show ?thesis by simp
  next
    case False
    from SyncRecords_success_cases [OF assms(1) False] obtain old' st where
      old': "GetLastSyncBatchID (sync_GetLastSyncBatchID_err env) db (sync_FlowJobName req) = Inr old'"
      and "sync_loop env (old' + 1) (Records (sync_Records req))
        \<lparr>records = [], tableNameRowsMapping = Map.empty, first = True, firstCP = 0\<rparr> = Inr st"
      and "res = \<lparr>FirstSyncedCheckPointID = firstCP st,
            LastSyncedCheckPointID = LastCheckPointID (sync_Records req),
            NumRecordsSynced = int (length (records st)),
            CurrentSyncBatchID = old' + 1,
            TableNameRowsMapping = tableNameRowsMapping st\<rparr>"
      and db': "db' = db\<lparr>raw_tables := (raw_tables db)(getRawTableIdentifier (sync_FlowJobName req) :=
                 raw_tables db (getRawTableIdentifier (sync_FlowJobName req)) @ records st),
              mirror_jobs := (mirror_jobs db)(sync_FlowJobName req \<mapsto>
                (case mirror_jobs db (sync_FlowJobName req) of
                   None \<Rightarrow> \<lparr>last_offset = LastCheckPointID (sync_Records req),
                             sync_batch_id = old' + 1, normalize_batch_id = 0\<rparr>
                 | Some m \<Rightarrow> m\<lparr>last_offset := LastCheckPointID (sync_Records req),
                               sync_batch_id := old' + 1\<rparr>))\<rparr>"
      by blast
    from assms(2) old' have same: "old' = old"
      by (auto simp: GetLastSyncBatchID_def split: option.splits)
    show ?thesis
      unfolding db' same
      by (simp add: getLastNormalizeBatchID_def GetLastSyncBatchID_def split: option.splits)
  qed
  then show "getLastNormalizeBatchID None db' (sync_FlowJobName req) =
           getLastNormalizeBatchID None db (sync_FlowJobName req)"
    and "GetLastSyncBatchID None db' (sync_FlowJobName req) = Inr old \<or>
         GetLastSyncBatchID None db' (sync_FlowJobName req) = Inr (old + 1)"
    by simp_all
qed

lemma NormalizeRecords_ids:
  assumes "NormalizeRecords env req db = (Inr res, db')"
  shows "GetLastSyncBatchID None db' (normalize_FlowJobName req) =
           GetLastSyncBatchID None db (normalize_FlowJobName req)"
    and "getLastNormalizeBatchID None db' (normalize_FlowJobName req) =
           GetLastSyncBatchID None db (normalize_FlowJobName req)"
proof -
  from NormalizeRecords_success_cases [OF assms] obtain S N where
    S: "GetLastSyncBatchID None db (normalize_FlowJobName req) = Inr S" and
    N: "getLastNormalizeBatchID None db (normalize_FlowJobName req) = Inr N" and
    cases: "((S = N \<or> mirror_jobs db (normalize_FlowJobName req) = None) \<and> db' = db) \<or>
      (\<exists>m tables. mirror_jobs db (normalize_FlowJobName req) = Some m \<and>
        db' = db\<lparr>normalized_tables := tables,
                 mirror_jobs := (mirror_jobs db)(normalize_FlowJobName req \<mapsto>
                    m\<lparr>normalize_batch_id := S\<rparr>)\<rparr>)"
    by blast
  from cases S N have
    "GetLastSyncBatchID None db' (normalize_FlowJobName req) = Inr S \<and>
     getLastNormalizeBatchID None db' (normalize_FlowJobName req) = Inr S"
    by (auto simp: GetLastSyncBatchID_def getLastNormalizeBatchID_def split: option.splits)
  with S show "GetLastSyncBatchID None db' (normalize_FlowJobName req) =
           GetLastSyncBatchID None db (normalize_FlowJobName req)"
    and "getLastNormalizeBatchID None db' (normalize_FlowJobName req) =
           GetLastSyncBatchID None db (normalize_FlowJobName req)"
    by simp_all
qed

lemma ids_bounded_mono: "ids_bounded n db \<Longrightarrow> n \<le> n' \<Longrightarrow> ids_bounded n' db"
  by (fastforce simp: ids_bounded_def)

lemma ids_bounded_SyncRecords:
  assumes "ids_bounded n db" and "int n < 9223372036854775807"
  shows "ids_bounded (Suc n) (snd (SyncRecords env req db))"
proof (cases "SyncRecords env req db")
  case (Pair r db')
  show ?thesis
  proof (cases r)
    case (Inl err)
    with Pair have "db' = db"
      by (auto dest: SyncRecords_error_keeps_destination)
    with Pair assms(1) show ?thesis
      by (auto intro: ids_bounded_mono)
  next
    case (Inr res)
    show ?thesis
    proof (cases "Records (sync_Records req) = []")
      case True
      from SyncRecords_no_records [OF True, of env db] assms(1) show ?thesis
        by (auto intro: ids_bounded_mono)
    next
      case False
      from Pair Inr have run: "SyncRecords env req db = (Inr res, db')"
        by simp
      from SyncRecords_success_cases [OF run False] obtain old st where
        old: "GetLastSyncBatchID (sync_GetLastSyncBatchID_err env) db (sync_FlowJobName req) = Inr old"
        and "sync_loop env (old + 1) (Records (sync_Records req))
          \<lparr>records = [], tableNameRowsMapping = Map.empty, first = True, firstCP = 0\<rparr> = Inr st"
        and "res = \<lparr>FirstSyncedCheckPointID = firstCP st,
              LastSyncedCheckPointID = LastCheckPointID (sync_Records req),
              NumRecordsSynced = int (length (records st)),
              CurrentSyncBatchID = old + 1,
              TableNameRowsMapping = tableNameRowsMapping st\<rparr>"
        and db': "db' = db\<lparr>raw_tables := (raw_tables db)(getRawTableIdentifier (sync_FlowJobName req) :=
                   raw_tables db (getRawTableIdentifier (sync_FlowJobName req)) @ records st),
                mirror_jobs := (mirror_jobs db)(sync_FlowJobName req \<mapsto>
                  (case mirror_jobs db (sync_FlowJobName req) of
                     None \<Rightarrow> \<lparr>last_offset = LastCheckPointID (sync_Records req),
                               sync_batch_id = old + 1, normalize_batch_id = 0\<rparr>
                   | Some m \<Rightarrow> m\<lparr>last_offset := LastCheckPointID (sync_Records req),
                                 sync_batch_id := old + 1\<rparr>))\<rparr>"
        by blast
      have stored: "old = (case mirror_jobs db (sync_FlowJobName req) of
                             None \<Rightarrow> 0 | Some m \<Rightarrow> sync_batch_id m)"
        using old by (auto simp: GetLastSyncBatchID_def split: option.splits)
      have "ids_bounded (Suc n) db'"
        unfolding ids_bounded_def
      proof (intro allI impI)
        fix j m'
        assume row: "mirror_jobs db' j = Some m'"
        show "sint (normalize_batch_id m') \<le> sint (sync_batch_id m') \<and>
              sint (sync_batch_id m') \<le> int (Suc n)"
        proof (cases "j = sync_FlowJobName req")
          case other: False
          with row have "mirror_jobs db j = Some m'"
            unfolding db' by simp
          with assms(1) show ?thesis
            by (fastforce simp: ids_bounded_def)
        next
          case True
          show ?thesis
          proof (cases "mirror_jobs db (sync_FlowJobName req)")
            case None
            with row True stored show ?thesis
              unfolding db' by auto
          next
            case (Some m)
            with assms(1) have m: "sint (normalize_batch_id m) \<le> sint (sync_batch_id m)"
              "sint (sync_batch_id m) \<le> int n"
              by (auto simp: ids_bounded_def)
            with assms(2) have "sint (sync_batch_id m + 1) = sint (sync_batch_id m) + 1"
              by (intro sint_increment) simp
            with row True stored Some m show ?thesis
              unfolding db' by auto
          qed
        qed
      qed
      with Pair show ?thesis by simp
    qed
  qed
qed

lemma ids_bounded_NormalizeRecords:
  assumes "ids_bounded n db"
  shows "ids_bounded (Suc n) (snd (NormalizeRecords env req db))"
proof (cases "NormalizeRecords env req db")
  case (Pair r db')
  show ?thesis
  proof (cases r)
    case (Inl err)
    with Pair have "db' = db"
      by (auto dest: NormalizeRecords_error_keeps_destination)
    with Pair assms show ?thesis
      by (auto intro: ids_bounded_mono)
  next
    case (Inr res)
    with Pair have run: "NormalizeRecords env req db = (Inr res, db')"
      by simp
    from NormalizeRecords_success_cases [OF run] obtain S where
      S: "GetLastSyncBatchID None db (normalize_FlowJobName req) = Inr S" and
      cases: "db' = db \<or>
        (\<exists>m tables. mirror_jobs db (normalize_FlowJobName req) = Some m \<and>
          db' = db\<lparr>normalized_tables := tables,
                   mirror_jobs := (mirror_jobs db)(normalize_FlowJobName req \<mapsto>
                      m\<lparr>normalize_batch_id := S\<rparr>)\<rparr>)"
      by blast
    from cases have "ids_bounded (Suc n) db'"
    proof (elim disjE exE conjE)
      assume "db' = db"
      with assms show ?thesis
        by (auto intro: ids_bounded_mono)
    next
      fix m tables
      assume m: "mirror_jobs db (normalize_FlowJobName req) = Some m"
        and db': "db' = db\<lparr>normalized_tables := tables,
                   mirror_jobs := (mirror_jobs db)(normalize_FlowJobName req \<mapsto>
                      m\<lparr>normalize_batch_id := S\<rparr>)\<rparr>"
      from m S have "S = sync_batch_id m"
        by (simp add: GetLastSyncBatchID_def)
      with assms m show ?thesis
        unfolding db' by (fastforce simp: ids_bounded_def)
    qed
    with Pair show ?thesis by simp
  qed
qed

lemma ids_bounded_run:
  "ids_bounded n db \<Longrightarrow> int (n + length xs) \<le> 9223372036854775807 \<Longrightarrow>
   ids_bounded (n + length xs) (run xs db)"
proof (induction xs arbitrary: n db)
  case Nil
  then show ?case by simp
next
  case (Cons x xs)
  from Cons.prems(2) have small: "int n < 9223372036854775807"
    by simp
  have "ids_bounded (Suc n) (apply_operation x db)"
    using Cons.prems(1) small
    by (cases x) (simp_all add: ids_bounded_SyncRecords ids_bounded_NormalizeRecords)
  from Cons.IH [OF this] Cons.prems(2) show ?case
    by simp
qed

lemma run_example:
  "run example_operations example_db_fresh = example_db_after_operations"
proof -
  have loop: "sync_loop example_sync_env 1 example_records
     \<lparr>records = [], tableNameRowsMapping = Map.empty, first = True, firstCP = 0\<rparr> =
   Inr \<lparr>records = map (\<lambda>row. row\<lparr>peerdb_batch_id := 1\<rparr>) example_rows,
        tableNameRowsMapping = [''public.t'' \<mapsto> 3], first = False, firstCP = 10\<rparr>"
    by (simp add: example_sync_env_def example_records_def example_rows_def expand_record_def
        KeysToString_examples increment_rows_def GetCheckPointID_def)
  have e: "sync_GetLastSyncBatchID_err example_sync_env = None"
      "sync_Begin_err example_sync_env = None" "CopyFrom_result example_sync_env = Inr 3"
      "updateSyncMetadata_err example_sync_env = None" "sync_Commit_err example_sync_env = None"
    by (simp_all add: example_sync_env_def)
  have r: "Records (sync_Records example_sync_request) = example_records"
      "sync_FlowJobName example_sync_request = ''job''"
      "LastCheckPointID (sync_Records example_sync_request) = 12"
    by (simp_all add: example_sync_request_def)
  have g: "GetLastSyncBatchID None example_db_fresh ''job'' = Inr 0"
    by (simp add: GetLastSyncBatchID_def example_db_fresh_def)
  have tx: "SyncRecords_tx example_sync_env example_sync_request 1
     \<lparr>records = map (\<lambda>row. row\<lparr>peerdb_batch_id := 1\<rparr>) example_rows,
      tableNameRowsMapping = [''public.t'' \<mapsto> 3], first = False, firstCP = 10\<rparr>
     example_db_fresh =
     Inr (\<lparr>FirstSyncedCheckPointID = 10, LastSyncedCheckPointID = 12, NumRecordsSynced = 3,
           CurrentSyncBatchID = 1, TableNameRowsMapping = [''public.t'' \<mapsto> 3]\<rparr>,
      \<lparr>mirror_jobs = [''job'' \<mapsto> \<lparr>last_offset = 12, sync_batch_id = 1, normalize_batch_id = 0\<rparr>],
       raw_tables = (\<lambda>table. [])(''_peerdb_raw_job'' :=
          map (\<lambda>row. row\<lparr>peerdb_batch_id := 1\<rparr>) example_rows),
       normalized_tables = ()\<rparr>)"
    by (simp add: SyncRecords_tx_def CopyFrom_def updateSyncMetadata_def
        getRawTableIdentifier_def e r length_example_rows example_db_fresh_def)
  have synced: "snd (SyncRecords example_sync_env example_sync_request example_db_fresh) =
     \<lparr>mirror_jobs = [''job'' \<mapsto> \<lparr>last_offset = 12, sync_batch_id = 1, normalize_batch_id = 0\<rparr>],
      raw_tables = (\<lambda>table. [])(''_peerdb_raw_job'' :=
         map (\<lambda>row. row\<lparr>peerdb_batch_id := 1\<rparr>) example_rows),
      normalized_tables = ()\<rparr>"
    by (simp add: SyncRecords_def e r g loop tx length_example_rows)
  show ?thesis
    by (simp add: example_operations_def synced)
      (simp add: NormalizeRecords_def NormalizeRecords_tx_def GetLastSyncBatchID_def
        getLastNormalizeBatchID_def jobMetadataExists_def updateNormalizeMetadata_def
        queue_statements_def example_normalize_env_def example_normalize_request_def
        example_db_after_operations_def)
qed

text \<open>
  Claim C2. Start from a destination without job metadata and run any sequence of
  \<open>SyncRecords\<close> and \<open>NormalizeRecords\<close> calls, successful or not, shorter than
  \<open>2^63 - 1\<close> (so that no \<open>sync_batch_id\<close> can have reached the largest \<open>int64\<close>, where
  adding one wraps around): afterwards \<open>normalize_batch_id \<le> sync_batch_id\<close> holds for
  the stored ids of every job, read as signed 64-bit integers. The reason is the one
  the claim gives: a successful \<open>SyncRecords\<close> leaves \<open>normalize_batch_id\<close> alone and
  leaves \<open>sync_batch_id\<close> as it was (empty batch) or one higher, and after a successful
  \<open>NormalizeRecords\<close> the \<open>sync_batch_id\<close> is as before and \<open>normalize_batch_id\<close> is the
  \<open>sync_batch_id\<close> the call read at its start.
\<close>

theorem batch_ids_stay_ordered:
  "(mirror_jobs db0 = Map.empty \<and> int (length xs) < 9223372036854775807 \<longrightarrow>
      batch_ids_ordered (run xs db0) j) \<and>
   (SyncRecords env req db = (Inr res, db') \<and>
    GetLastSyncBatchID None db (sync_FlowJobName req) = Inr old \<longrightarrow>
      getLastNormalizeBatchID None db' (sync_FlowJobName req) =
        getLastNormalizeBatchID None db (sync_FlowJobName req) \<and>
      (GetLastSyncBatchID None db' (sync_FlowJobName req) = Inr old \<or>
       GetLastSyncBatchID None db' (sync_FlowJobName req) = Inr (old + 1))) \<and>
   (NormalizeRecords nenv nreq db = (Inr nres, db'') \<longrightarrow>
      GetLastSyncBatchID None db'' (normalize_FlowJobName nreq) =
        GetLastSyncBatchID None db (normalize_FlowJobName nreq) \<and>
      getLastNormalizeBatchID None db'' (normalize_FlowJobName nreq) =
        GetLastSyncBatchID None db (normalize_FlowJobName nreq))"
proof (intro conjI)
  show "mirror_jobs db0 = Map.empty \<and> int (length xs) < 9223372036854775807 \<longrightarrow>
      batch_ids_ordered (run xs db0) j"
  proof (rule impI)
    assume a: "mirror_jobs db0 = Map.empty \<and> int (length xs) < 9223372036854775807"
    then have "ids_bounded 0 db0"
      by (simp add: ids_bounded_def)
    from ids_bounded_run [OF this, of xs] a have "ids_bounded (length xs) (run xs db0)"
      by simp
    then show "batch_ids_ordered (run xs db0) j"
      by (auto simp: ids_bounded_def batch_ids_ordered_def split: option.splits)
  qed
next
  show "SyncRecords env req db = (Inr res, db') \<and>
    GetLastSyncBatchID None db (sync_FlowJobName req) = Inr old \<longrightarrow>
      getLastNormalizeBatchID None db' (sync_FlowJobName req) =
        getLastNormalizeBatchID None db (sync_FlowJobName req) \<and>
      (GetLastSyncBatchID None db' (sync_FlowJobName req) = Inr old \<or>
       GetLastSyncBatchID None db' (sync_FlowJobName req) = Inr (old + 1))"
    using SyncRecords_ids by blast
next
  show "NormalizeRecords nenv nreq db = (Inr nres, db'') \<longrightarrow>
      GetLastSyncBatchID None db'' (normalize_FlowJobName nreq) =
        GetLastSyncBatchID None db (normalize_FlowJobName nreq) \<and>
      getLastNormalizeBatchID None db'' (normalize_FlowJobName nreq) =
        GetLastSyncBatchID None db (normalize_FlowJobName nreq)"
    using NormalizeRecords_ids by blast
qed

theorem batch_ids_stay_ordered_witness:
  "run example_operations example_db_fresh = example_db_after_operations \<and>
   batch_ids_ordered example_db_after_operations ''job'' \<and>
   SyncRecords example_sync_env example_sync_request example_db =
     (Inr \<lparr>FirstSyncedCheckPointID = 10, LastSyncedCheckPointID = 12, NumRecordsSynced = 3,
           CurrentSyncBatchID = 4, TableNameRowsMapping = [''public.t'' \<mapsto> 3]\<rparr>,
      example_db_synced) \<and>
   GetLastSyncBatchID None example_db_synced ''job'' = Inr (3 + 1) \<and>
   getLastNormalizeBatchID None example_db_synced ''job'' = Inr 1 \<and>
   NormalizeRecords example_normalize_env example_normalize_request example_db =
     (Inr \<lparr>Done = True, StartBatchID = 2, EndBatchID = 3\<rparr>, example_db_normalized) \<and>
   GetLastSyncBatchID None example_db_normalized ''job'' = Inr 3 \<and>
   getLastNormalizeBatchID None example_db_normalized ''job'' = Inr 3"
proof -
  note inst = batch_ids_stay_ordered [of example_db_fresh example_operations "''job''"
      example_sync_env example_sync_request example_db _ example_db_synced 3
      example_normalize_env example_normalize_request _ example_db_normalized]
  have fresh: "mirror_jobs example_db_fresh = Map.empty"
    by (simp add: example_db_fresh_def)
  have short: "int (length example_operations) < 9223372036854775807"
    by (simp add: example_operations_def)
  have j: "sync_FlowJobName example_sync_request = ''job''"
    "normalize_FlowJobName example_normalize_request = ''job''"
    by (simp_all add: example_sync_request_def example_normalize_request_def)
  have before: "getLastNormalizeBatchID None example_db ''job'' = Inr 1"
    by (simp add: getLastNormalizeBatchID_def example_db_def)
  have not_old: "GetLastSyncBatchID None example_db_synced ''job'' \<noteq> Inr 3"
    by (simp add: GetLastSyncBatchID_def example_db_synced_def)
  from inst fresh short have 1: "batch_ids_ordered example_db_after_operations ''job''"
    by (simp add: run_example)
  from inst SyncRecords_example GetLastSyncBatchID_example not_old before
  have 2: "GetLastSyncBatchID None example_db_synced ''job'' = Inr (3 + 1) \<and>
           getLastNormalizeBatchID None example_db_synced ''job'' = Inr 1"
    unfolding j by simp
  from inst NormalizeRecords_example GetLastSyncBatchID_example
  have 3: "GetLastSyncBatchID None example_db_normalized ''job'' = Inr 3 \<and>
           getLastNormalizeBatchID None example_db_normalized ''job'' = Inr 3"
    unfolding j by simp
  from 1 2 3 run_example SyncRecords_example NormalizeRecords_example show ?thesis
    by simp
qed

text \<open>
  Claim C4, as the claim has it: the second of two \<open>NormalizeRecords\<close> calls in a row
  would answer with start \<open>S + 1\<close> and end \<open>S\<close>. It does not: for the example job, with
  \<open>sync_batch_id\<close> 3, the first call normalizes batches 2 to 3 and the second call
  answers with start 3 and end 3.
\<close>

theorem NormalizeRecords_twice_counterexample:
  "NormalizeRecords example_normalize_env example_normalize_request example_db =
     (Inr \<lparr>Done = True, StartBatchID = 2, EndBatchID = 3\<rparr>, example_db_normalized) \<and>
   GetLastSyncBatchID None example_db_normalized ''job'' = Inr 3 \<and>
   NormalizeRecords example_normalize_env example_normalize_request example_db_normalized =
     (Inr \<lparr>Done = True, StartBatchID = 3, EndBatchID = 3\<rparr>, example_db_normalized) \<and>
   NormalizeRecords example_normalize_env example_normalize_request example_db_normalized \<noteq>
     (Inr \<lparr>Done = True, StartBatchID = 3 + 1, EndBatchID = 3\<rparr>, example_db_normalized)"
  by (simp add: NormalizeRecords_example NormalizeRecords_example_again)
    (simp add: GetLastSyncBatchID_def example_db_normalized_def)

text \<open>
  The example is no accident: for a job that has a metadata row, no successful call
  answers with a start one above its end.
\<close>

lemma NormalizeRecords_start_not_above_end:
  assumes "NormalizeRecords env req db = (Inr res, db')"
    and "mirror_jobs db (normalize_FlowJobName req) \<noteq> None"
  shows "StartBatchID res \<noteq> EndBatchID res + 1"
proof -
  from NormalizeRecords_success_cases [OF assms(1)] obtain S N where
    "(S = N \<and> res = \<lparr>Done = True, StartBatchID = N, EndBatchID = S\<rparr>) \<or>
     (S \<noteq> N \<and> res = \<lparr>Done = True, StartBatchID = N + 1, EndBatchID = S\<rparr>)"
    using assms(2) by auto
  then show ?thesis by auto
qed

text \<open>
  Claim C4, amended. After a successful \<open>NormalizeRecords\<close>, a second call with no
  \<open>SyncRecords\<close> in between, whose three reads of the metadata succeed, returns
  \<open>{done: true, start: S, end: S}\<close>, where \<open>S\<close> is the current \<open>sync_batch_id\<close>, and
  leaves the destination (normalized tables, raw tables and job metadata) as it was.
\<close>

theorem NormalizeRecords_twice:
  assumes "NormalizeRecords env1 req db = (Inr res1, db1)"
    and "norm_GetLastSyncBatchID_err env2 = None"
    and "getLastNormalizeBatchID_err env2 = None"
    and "jobMetadataExists_err env2 = None"
  shows "\<exists>S. GetLastSyncBatchID None db1 (normalize_FlowJobName req) = Inr S \<and>
     NormalizeRecords env2 req db1 =
       (Inr \<lparr>Done = True, StartBatchID = S, EndBatchID = S\<rparr>, db1)"
proof -
  from NormalizeRecords_success_cases [OF assms(1)] obtain S N where
    S: "GetLastSyncBatchID None db (normalize_FlowJobName req) = Inr S" and
    N: "getLastNormalizeBatchID None db (normalize_FlowJobName req) = Inr N" and
    cases: "((S = N \<or> mirror_jobs db (normalize_FlowJobName req) = None) \<and> db1 = db) \<or>
      (\<exists>m tables. mirror_jobs db (normalize_FlowJobName req) = Some m \<and>
        db1 = db\<lparr>normalized_tables := tables,
                 mirror_jobs := (mirror_jobs db)(normalize_FlowJobName req \<mapsto>
                    m\<lparr>normalize_batch_id := S\<rparr>)\<rparr>)"
    by blast
  from cases S N have after:
    "GetLastSyncBatchID None db1 (normalize_FlowJobName req) = Inr S"
    "getLastNormalizeBatchID None db1 (normalize_FlowJobName req) = Inr S"
    by (auto simp: GetLastSyncBatchID_def getLastNormalizeBatchID_def split: option.splits)
  with assms(2-4) have "NormalizeRecords env2 req db1 =
       (Inr \<lparr>Done = True, StartBatchID = S, EndBatchID = S\<rparr>, db1)"
    by (simp add: NormalizeRecords_def jobMetadataExists_def)
  with after(1) show ?thesis by blast
qed

theorem NormalizeRecords_twice_witness:
  "NormalizeRecords example_normalize_env example_normalize_request example_db =
     (Inr \<lparr>Done = True, StartBatchID = 2, EndBatchID = 3\<rparr>, example_db_normalized) \<and>
   NormalizeRecords example_normalize_env example_normalize_request example_db_normalized =
     (Inr \<lparr>Done = True, StartBatchID = 3, EndBatchID = 3\<rparr>, example_db_normalized)"
proof -
  have e: "norm_GetLastSyncBatchID_err example_normalize_env = None"
    "getLastNormalizeBatchID_err example_normalize_env = None"
    "jobMetadataExists_err example_normalize_env = None"
    by (simp_all add: example_normalize_env_def)
  have S: "GetLastSyncBatchID None example_db_normalized ''job'' = Inr 3"
    by (simp add: GetLastSyncBatchID_def example_db_normalized_def)
  from NormalizeRecords_twice [OF NormalizeRecords_example e] S
  have "NormalizeRecords example_normalize_env example_normalize_request example_db_normalized =
     (Inr \<lparr>Done = True, StartBatchID = 3, EndBatchID = 3\<rparr>, example_db_normalized)"
    by (simp add: example_normalize_request_def)
  with NormalizeRecords_example show ?thesis by simp
qed


section \<open>Properties of PullRecords\<close>

text \<open>
  Claim C6. Let the check of slot and publication answer. If the publication does not
  exist and the slot does, \<open>PullRecords\<close> logs a warning and continues with the empty
  publication name: the CDC source is created for the configuration with the slot's
  name and \<open>Publication = ""\<close>, the records are pulled from that source, and the call
  returns what the pull returns, or the error of the creation, of the pull, or of the
  reporting that follows a non-empty batch. If the slot does not exist, the call fails
  with the error that names the slot, after logging; no collaborator is called after
  the check, so the world, and with it the job metadata and its \<open>last_offset\<close>, is as
  before.
\<close>

theorem PullRecords_missing_publication_or_slot:
  assumes "checkSlotAndPublication env (pull_slotName req) (pull_publicationName req) w = Inr exists"
    and "cfg = \<lparr>cdc_SrcTableIDNameMapping = SrcTableIDNameMapping req, Slot = pull_slotName req,
                 Publication = '''', cdc_TableNameMapping = TableNameMapping req\<rparr>"
    and "logs' = logs @
           [(Warn, ''publication '' @ pull_publicationName req @ '' does not exist''),
            (Info, ''PullRecords: performed checks for slot and publication'')]"
  shows "(\<not> PublicationExists exists \<and> SlotExists exists \<longrightarrow>
           (\<forall>err. NewPostgresCDCSource_err env cfg = Some err \<longrightarrow>
              PullRecords env req (w, logs) =
                (Inl (Wrapped ''failed to create cdc source'' err), w, logs')) \<and>
           (\<forall>pulled w1. NewPostgresCDCSource_err env cfg = None \<and>
                cdc_PullRecords env cfg req w = (pulled, w1) \<longrightarrow>
              (\<forall>err. pulled = Inl err \<longrightarrow>
                 PullRecords env req (w, logs) = (Inl err, w1, logs')) \<and>
              (\<forall>batch. pulled = Inr batch \<and> Records batch = [] \<longrightarrow>
                 PullRecords env req (w, logs) = (Inr batch, w1, logs')) \<and>
              (\<forall>batch. pulled = Inr batch \<and> Records batch \<noteq> [] \<longrightarrow>
                 (\<forall>err. getApproxTableCounts_err env (map fst (TableNameMapping req)) w1 = Some err \<longrightarrow>
                    PullRecords env req (w, logs) = (Inl err, w1, logs')) \<and>
                 (getApproxTableCounts_err env (map fst (TableNameMapping req)) w1 = None \<and>
                  \<not> CDCMirrorMonitor_present env \<longrightarrow>
                    PullRecords env req (w, logs) = (Inr batch, w1, logs')) \<and>
                 (getApproxTableCounts_err env (map fst (TableNameMapping req)) w1 = None \<and>
                  CDCMirrorMonitor_present env \<longrightarrow>
                    (\<forall>err. getCurrentLSN env w1 = Inl err \<longrightarrow>
                       PullRecords env req (w, logs) = (Inl err, w1, logs')) \<and>
                    (\<forall>latestLSN err w2. getCurrentLSN env w1 = Inr latestLSN \<and>
                         UpdateLatestLSNAtSourceForCDCFlow env (FlowJobName req) latestLSN w1 =
                           (Some err, w2) \<longrightarrow>
                       PullRecords env req (w, logs) = (Inl err, w2, logs')) \<and>
                    (\<forall>latestLSN w2. getCurrentLSN env w1 = Inr latestLSN \<and>
                         UpdateLatestLSNAtSourceForCDCFlow env (FlowJobName req) latestLSN w1 =
                           (None, w2) \<longrightarrow>
                       PullRecords env req (w, logs) = (Inr batch, w2, logs')))))) \<and>
         (\<not> SlotExists exists \<longrightarrow>
            (\<exists>logs'. PullRecords env req (w, logs) =
               (Inl (SlotDoesNotExist (pull_slotName req)), w,
                logs' @ [(Warn, ''slot '' @ pull_slotName req @ '' does not exist'')])) \<and>
            mirror_jobs (dest (fst (snd (PullRecords env req (w, logs))))) = mirror_jobs (dest w))"
proof (rule conjI; rule impI)
  assume a: "\<not> PublicationExists exists \<and> SlotExists exists"
  with assms have start: "PullRecords env req (w, logs) =
      PullRecords_checked env req (pull_slotName req) '''' (w, logs')"
    by (simp add: PullRecords_def Let_def)
  show "(\<forall>err. NewPostgresCDCSource_err env cfg = Some err \<longrightarrow>
              PullRecords env req (w, logs) =
                (Inl (Wrapped ''failed to create cdc source'' err), w, logs')) \<and>
           (\<forall>pulled w1. NewPostgresCDCSource_err env cfg = None \<and>
                cdc_PullRecords env cfg req w = (pulled, w1) \<longrightarrow>
              (\<forall>err. pulled = Inl err \<longrightarrow>
                 PullRecords env req (w, logs) = (Inl err, w1, logs')) \<and>
              (\<forall>batch. pulled = Inr batch \<and> Records batch = [] \<longrightarrow>
                 PullRecords env req (w, logs) = (Inr batch, w1, logs')) \<and>
              (\<forall>batch. pulled = Inr batch \<and> Records batch \<noteq> [] \<longrightarrow>
                 (\<forall>err. getApproxTableCounts_err env (map fst (TableNameMapping req)) w1 = Some err \<longrightarrow>
                    PullRecords env req (w, logs) = (Inl err, w1, logs')) \<and>
                 (getApproxTableCounts_err env (map fst (TableNameMapping req)) w1 = None \<and>
                  \<not> CDCMirrorMonitor_present env \<longrightarrow>
                    PullRecords env req (w, logs) = (Inr batch, w1, logs')) \<and>
                 (getApproxTableCounts_err env (map fst (TableNameMapping req)) w1 = None \<and>
                  CDCMirrorMonitor_present env \<longrightarrow>
                    (\<forall>err. getCurrentLSN env w1 = Inl err \<longrightarrow>
                       PullRecords env req (w, logs) = (Inl err, w1, logs')) \<and>
                    (\<forall>latestLSN err w2. getCurrentLSN env w1 = Inr latestLSN \<and>
                         UpdateLatestLSNAtSourceForCDCFlow env (FlowJobName req) latestLSN w1 =
                           (Some err, w2) \<longrightarrow>
                       PullRecords env req (w, logs) = (Inl err, w2, logs')) \<and>
                    (\<forall>latestLSN w2. getCurrentLSN env w1 = Inr latestLSN \<and>
                         UpdateLatestLSNAtSourceForCDCFlow env (FlowJobName req) latestLSN w1 =
                           (None, w2) \<longrightarrow>
                       PullRecords env req (w, logs) = (Inr batch, w2, logs')))))"
    unfolding start using assms(2)
    by (simp add: PullRecords_checked_def)
next
  assume "\<not> SlotExists exists"
  with assms(1) show "(\<exists>logs'. PullRecords env req (w, logs) =
               (Inl (SlotDoesNotExist (pull_slotName req)), w,
                logs' @ [(Warn, ''slot '' @ pull_slotName req @ '' does not exist'')])) \<and>
            mirror_jobs (dest (fst (snd (PullRecords env req (w, logs))))) = mirror_jobs (dest w)"
    by (simp add: PullRecords_def Let_def)
qed

theorem PullRecords_missing_publication_or_slot_witness:
  "PullRecords (example_pull_env \<lparr>SlotExists = True, PublicationExists = False\<rparr>)
     example_pull_request (example_world, []) =
     (Inr example_pulled_batch, example_world,
      [(Warn, ''publication peerflow_pub_job does not exist''),
       (Info, ''PullRecords: performed checks for slot and publication'')]) \<and>
   fst (PullRecords (example_pull_env \<lparr>SlotExists = False, PublicationExists = True\<rparr>)
     example_pull_request (example_world, [])) = Inl (SlotDoesNotExist ''peerflow_slot_job'') \<and>
   mirror_jobs (dest (fst (snd
     (PullRecords (example_pull_env \<lparr>SlotExists = False, PublicationExists = True\<rparr>)
        example_pull_request (example_world, []))))) = mirror_jobs example_db"
proof -
  let ?no_pub = "\<lparr>SlotExists = True, PublicationExists = False\<rparr>"
  let ?no_slot = "\<lparr>SlotExists = False, PublicationExists = True\<rparr>"
  let ?cfg = "\<lparr>cdc_SrcTableIDNameMapping = SrcTableIDNameMapping example_pull_request,
               Slot = pull_slotName example_pull_request, Publication = '''',
               cdc_TableNameMapping = TableNameMapping example_pull_request\<rparr>"
  let ?logs' = "[] @
           [(Warn, ''publication '' @ pull_publicationName example_pull_request @ '' does not exist''),
            (Info, ''PullRecords: performed checks for slot and publication'')]"
  have names: "pull_slotName example_pull_request = ''peerflow_slot_job''"
    "pull_publicationName example_pull_request = ''peerflow_pub_job''"
    by (simp_all add: pull_slotName_def pull_publicationName_def example_pull_request_def)
  have h: "checkSlotAndPublication (example_pull_env check) (pull_slotName example_pull_request)
             (pull_publicationName example_pull_request) example_world = Inr check" for check
    by (simp add: example_pull_env_def)
  have created: "NewPostgresCDCSource_err (example_pull_env ?no_pub) ?cfg = None"
    by (simp add: example_pull_env_def names)
  have pulled: "cdc_PullRecords (example_pull_env ?no_pub) ?cfg example_pull_request example_world =
      (Inr example_pulled_batch, example_world)"
    by (simp add: example_pull_env_def)
  have batch: "Records example_pulled_batch \<noteq> []"
    by (simp add: example_pulled_batch_def)
  have counts: "getApproxTableCounts_err (example_pull_env ?no_pub)
      (map fst (TableNameMapping example_pull_request)) example_world = None"
    "\<not> CDCMirrorMonitor_present (example_pull_env ?no_pub)"
    by (simp_all add: example_pull_env_def)
  from PullRecords_missing_publication_or_slot [OF h [of ?no_pub] refl refl]
    created pulled batch counts
  have "PullRecords (example_pull_env ?no_pub) example_pull_request (example_world, []) =
     (Inr example_pulled_batch, example_world, ?logs')"
    by simp
  then have 1: "PullRecords (example_pull_env ?no_pub) example_pull_request (example_world, []) =
     (Inr example_pulled_batch, example_world,
      [(Warn, ''publication peerflow_pub_job does not exist''),
       (Info, ''PullRecords: performed checks for slot and publication'')])"
    by (simp add: names)
  from PullRecords_missing_publication_or_slot [OF h [of ?no_slot] refl refl, of "[]"]
  have 2: "fst (PullRecords (example_pull_env ?no_slot) example_pull_request (example_world, [])) =
        Inl (SlotDoesNotExist ''peerflow_slot_job'') \<and>
     mirror_jobs (dest (fst (snd
       (PullRecords (example_pull_env ?no_slot) example_pull_request (example_world, []))))) =
     mirror_jobs example_db"
    by (auto simp: names example_world_def)
  from 1 2 show ?thesis by simp
qed

end
